theory Spec2Isabelle
  imports Main "HOL-Library.Word"
begin

unbundle bit_operations_syntax

section \<open>Python strings as the handlers use them\<close>

text \<open>
  The value of a request header reaches the handler as a Python \<open>str\<close> whose code points
  are the bytes of the header (WSGI decodes headers as Latin-1), so a header is a
  \<^typ>\<open>string\<close>: one \<^typ>\<open>char\<close> per code point, all below 256.

  \<open>str.split()\<close> without arguments cuts at runs of white space and drops empty pieces.
  Below 256 the white-space code points of Python are 9 to 13, 28 to 32, 133 and 160.
\<close>

definition py_isspace :: "char \<Rightarrow> bool" where
  "py_isspace c =
     (let n = (of_char c :: nat)
      in (9 \<le> n \<and> n \<le> 13) \<or> (28 \<le> n \<and> n \<le> 32) \<or> n = 133 \<or> n = 160)"

text \<open>
  \<open>py_split_from w s\<close> scans \<open>s\<close> with the piece \<open>w\<close> collected so far: a white-space
  character closes the piece (if there is one), any other character extends it.
\<close>

fun py_split_from :: "string \<Rightarrow> string \<Rightarrow> string list" where
  "py_split_from w [] = (if w = [] then [] else [w])"
| "py_split_from w (c # cs) =
     (if py_isspace c
      then (if w = [] then py_split_from [] cs else w # py_split_from [] cs)
      else py_split_from (w @ [c]) cs)"

definition py_split :: "string \<Rightarrow> string list" where
  "py_split s = py_split_from [] s"

text \<open>
  \<open>str.lower()\<close> on code points below 256: the letters A to Z and the accented capitals
  192 to 222 (215, the multiplication sign, apart) move up by 32; nothing else changes.
\<close>

definition py_lower_char :: "char \<Rightarrow> char" where
  "py_lower_char c =
     (let n = (of_char c :: nat)
      in if (65 \<le> n \<and> n \<le> 90) \<or> (192 \<le> n \<and> n \<le> 222 \<and> n \<noteq> 215)
         then char_of (n + 32) else c)"

definition py_lower :: "string \<Rightarrow> string" where
  "py_lower s = map py_lower_char s"

section \<open>Configuration\<close>

text \<open>
  The two deployments (\<open>app.py\<close> and \<open>api/app.py\<close>) differ in the two module-level
  constants only; the handlers are the same text. The handlers below take the constants
  as a record, and both deployments are instances.
\<close>

record config =
  FULL_VALID_TOKEN :: string
  UPLOAD_FOLDER :: string

definition VALID_API_KEY_PREFIX :: string where
  "VALID_API_KEY_PREFIX = ''kaiiddo-ith''"

definition app_config :: config where
  "app_config =
     \<lparr> FULL_VALID_TOKEN = VALID_API_KEY_PREFIX @ ''-8b7c4a1e9f2d6g3h5j0k9l8m7n6p5q4r'',
       UPLOAD_FOLDER = ''uploaded_files'' \<rparr>"

definition api_VALID_API_KEY_PREFIX :: string where
  "api_VALID_API_KEY_PREFIX = ''kaiiddo-ituw''"

definition api_app_config :: config where
  "api_app_config =
     \<lparr> FULL_VALID_TOKEN = api_VALID_API_KEY_PREFIX @ ''-8b7c4a1e9f2d6g3h5j0k9l8m7n6p5q4r'',
       UPLOAD_FOLDER = ''/tmp/uploaded_files'' \<rparr>"

section \<open>Responses\<close>

type_synonym bytes = "8 word list"

text \<open>
  What a handler returns: a body and a status code. The JSON bodies are the two shapes
  the upload handler builds; a served file is its content; the 404 page is markup text.
\<close>

datatype body =
    ErrorJson (errorCode: int) (errorMessage: string)
  | SuccessJson (sharedLink: string) (fileName: string) (fileSize: int) (uploadDate: string)
  | FileBody (content: bytes)
  | Html string

type_synonym response = "body \<times> int"

section \<open>Step 1 of the upload handler: the bearer token\<close>

text \<open>
  The first block of \<open>api_upload_file\<close>. The result is the error response the block
  returns, or \<open>None\<close> when control passes on to the file check.
\<close>

definition authenticate :: "config \<Rightarrow> string option \<Rightarrow> response option" where
  "authenticate cfg auth_header =
     (case auth_header of
        None \<Rightarrow>
          Some (ErrorJson 401 ''Authentication required. Missing Authorization header.'', 401)
      | Some h \<Rightarrow>
          if h = [] then
            Some (ErrorJson 401 ''Authentication required. Missing Authorization header.'', 401)
          else
            (case py_split h of
               [scheme, token] \<Rightarrow>
                 if py_lower scheme \<noteq> ''bearer'' \<or> token \<noteq> FULL_VALID_TOKEN cfg then
                   Some (ErrorJson 403
                          (''Invalid Bearer Token. Token must match: '' @ FULL_VALID_TOKEN cfg),
                         403)
                 else None
             | _ \<Rightarrow>
                 Some (ErrorJson 401
                        ''Invalid Authorization header format. Must be 'Bearer [token]'.'',
                       401)))"

section \<open>Library functions the handlers call\<close>

subsection \<open>\<open>werkzeug.utils.secure_filename\<close>\<close>

text \<open>
  An uploaded filename is a Python \<open>str\<close> of arbitrary Unicode code points, here a list
  of code points. \<open>secure_filename\<close> first normalises to NFKD and drops what is not
  ASCII. An ASCII code point is its own decomposition, decomposition works code point by
  code point, and reordering only moves combining marks (never ASCII), so this step is a
  \<open>concat\<close> over the code points. The Unicode decomposition table is not part of the
  program: \<open>tbl c\<close> stands for the characters the table leaves of a code point
  \<open>c \<ge> 128\<close>, of which only the ASCII ones are kept.
\<close>

type_synonym ustring = "nat list"

definition ustr :: "string \<Rightarrow> ustring" where
  "ustr s = map of_char s"

definition nfkd_ascii :: "(nat \<Rightarrow> string) \<Rightarrow> ustring \<Rightarrow> string" where
  "nfkd_ascii tbl u =
     concat (map (\<lambda>c. if c < 128 then [char_of c]
                       else filter (\<lambda>a. (of_char a :: nat) < 128) (tbl c)) u)"

definition replace_char :: "char \<Rightarrow> char \<Rightarrow> string \<Rightarrow> string" where
  "replace_char a b s = map (\<lambda>c. if c = a then b else c) s"

fun py_join :: "string \<Rightarrow> string list \<Rightarrow> string" where
  "py_join sep [] = []"
| "py_join sep [x] = x"
| "py_join sep (x # y # ys) = x @ sep @ py_join sep (y # ys)"

text \<open>The characters that \<open>_filename_ascii_strip_re = [^A-Za-z0-9_.-]\<close> leaves.\<close>

definition filename_ascii_keep :: "char \<Rightarrow> bool" where
  "filename_ascii_keep c =
     (let n = (of_char c :: nat)
      in (65 \<le> n \<and> n \<le> 90) \<or> (97 \<le> n \<and> n \<le> 122) \<or> (48 \<le> n \<and> n \<le> 57)
         \<or> c = CHR ''_'' \<or> c = CHR ''.'' \<or> c = CHR ''-'')"

definition py_strip :: "string \<Rightarrow> string \<Rightarrow> string" where
  "py_strip chars s =
     rev (dropWhile (\<lambda>c. c \<in> set chars) (rev (dropWhile (\<lambda>c. c \<in> set chars) s)))"

text \<open>
  On a POSIX host \<open>os.sep\<close> is the slash, \<open>os.path.altsep\<close> is \<open>None\<close> and the branch for
  Windows device names is not taken.
\<close>

definition secure_filename :: "(nat \<Rightarrow> string) \<Rightarrow> ustring \<Rightarrow> string" where
  "secure_filename tbl filename =
     (let filename1 = nfkd_ascii tbl filename;
          filename2 = replace_char CHR ''/'' CHR '' '' filename1
      in py_strip ''._'' (filter filename_ascii_keep (py_join ''_'' (py_split filename2))))"

subsection \<open>\<open>uuid.uuid4().hex\<close>\<close>

text \<open>
  \<open>uuid4\<close> reads 16 random bytes as a 128-bit integer and overwrites the variant and
  version bits; \<open>hex\<close> prints the integer as 32 lower-case hexadecimal digits
  (\<open>'%032x'\<close>), most significant first.
\<close>

definition uuid4 :: "128 word \<Rightarrow> 128 word" where
  "uuid4 r =
     (((r AND NOT (push_bit 48 0xc000)) OR push_bit 48 0x8000)
        AND NOT (push_bit 64 0xf000)) OR push_bit 76 4"

definition hex_digit :: "nat \<Rightarrow> char" where
  "hex_digit n = (if n < 10 then char_of (48 + n) else char_of (87 + n))"

definition hex :: "128 word \<Rightarrow> string" where
  "hex w = map (\<lambda>i. hex_digit (unat (drop_bit (4 * i) w AND 15))) (rev [0..<32])"

subsection \<open>Paths\<close>

definition os_path_join :: "string \<Rightarrow> string \<Rightarrow> string" where
  "os_path_join a b =
     (if take 1 b = ''/'' then b
      else if a = [] \<or> last a = CHR ''/'' then a @ b
      else a @ ''/'' @ b)"

text \<open>\<open>str.split(sep)\<close> with a one-character separator keeps empty pieces.\<close>

fun split_sep_from :: "char \<Rightarrow> string \<Rightarrow> string \<Rightarrow> string list" where
  "split_sep_from d w [] = [w]"
| "split_sep_from d w (c # cs) =
     (if c = d then w # split_sep_from d [] cs else split_sep_from d (w @ [c]) cs)"

text \<open>The loop of \<open>posixpath.normpath\<close> over the components.\<close>

fun norm_comps :: "nat \<Rightarrow> string list \<Rightarrow> string list \<Rightarrow> string list" where
  "norm_comps initial_slashes new_comps [] = new_comps"
| "norm_comps initial_slashes new_comps (part # comps) =
     (if part = [] \<or> part = ''.'' then norm_comps initial_slashes new_comps comps
      else if part \<noteq> ''..'' \<or> (initial_slashes = 0 \<and> new_comps = [])
              \<or> (new_comps \<noteq> [] \<and> last new_comps = ''..'')
      then norm_comps initial_slashes (new_comps @ [part]) comps
      else if new_comps \<noteq> [] then norm_comps initial_slashes (butlast new_comps) comps
      else norm_comps initial_slashes new_comps comps)"

definition normpath :: "string \<Rightarrow> string" where
  "normpath path =
     (if path = [] then ''.''
      else
        let initial_slashes =
              (if take 1 path = ''/''
               then (if take 2 path = ''//'' \<and> take 3 path \<noteq> ''///'' then 2 else 1)
               else (0::nat));
            comps = norm_comps initial_slashes [] (split_sep_from CHR ''/'' [] path);
            path1 = replicate initial_slashes CHR ''/'' @ py_join ''/'' comps
        in if path1 = [] then ''.'' else path1)"

text \<open>
  \<open>werkzeug.security.safe_join\<close> with one untrusted path name, on a POSIX host (no
  alternative separators): \<open>None\<close> when the normalised name is absolute or climbs out.
\<close>

definition safe_join :: "string \<Rightarrow> string \<Rightarrow> string option" where
  "safe_join directory filename =
     (let directory1 = (if directory = [] then ''.'' else directory);
          filename1 = (if filename \<noteq> [] then normpath filename else filename)
      in if take 1 filename1 = ''/'' \<or> filename1 = ''..'' \<or> take 3 filename1 = ''../''
         then None
         else Some (os_path_join directory1 filename1))"

section \<open>The storage directory\<close>

text \<open>
  The file system as the process sees it: the regular files with their content, the
  paths where \<open>open\<close> raises (permissions, a directory in the way, a name that is too
  long, a failing device), whatever the mode, and the working directory. Files and
  faults are recorded under absolute paths. A path handed to the system is resolved
  against the working directory when it is relative and taken as it is when it is
  absolute; paths are compared as strings.
\<close>

datatype os_error = FileNotFoundError | PermissionError | IsADirectoryError | OtherOSError

datatype exn = NotFound | RequestedRangeNotSatisfiable | OSError os_error | TypeError

record fs =
  contents :: "string \<rightharpoonup> bytes"
  fault :: "string \<rightharpoonup> os_error"
  cwd :: string

definition resolve :: "fs \<Rightarrow> string \<Rightarrow> string" where
  "resolve st p = os_path_join (cwd st) p"

definition isfile :: "fs \<Rightarrow> string \<Rightarrow> bool" where
  "isfile st p = (contents st (resolve st p) \<noteq> None)"

text \<open>\<open>open(p, 'rb').read()\<close>.\<close>

definition read_file :: "fs \<Rightarrow> string \<Rightarrow> exn + bytes" where
  "read_file st p =
     (case fault st (resolve st p) of
        Some e \<Rightarrow> Inl (OSError e)
      | None \<Rightarrow> (case contents st (resolve st p) of
                   None \<Rightarrow> Inl (OSError FileNotFoundError)
                 | Some data \<Rightarrow> Inr data))"

text \<open>\<open>FileStorage.save(dst)\<close>: \<open>open(dst, 'wb')\<close>, then the stream is copied.\<close>

definition save :: "bytes \<Rightarrow> string \<Rightarrow> fs \<Rightarrow> exn + fs" where
  "save stream dst st =
     (case fault st (resolve st dst) of
        Some e \<Rightarrow> Inl (OSError e)
      | None \<Rightarrow> Inr (st\<lparr>contents := (contents st)(resolve st dst \<mapsto> stream)\<rparr>))"

section \<open>What Flask and werkzeug add to a retrieval\<close>

text \<open>
  The headers of a GET request that \<open>send_file\<close> looks at (\<open>None\<close>: the header is not
  sent).
\<close>

record get_request =
  http_range :: "string option"
  http_if_range :: "string option"
  http_if_none_match :: "string option"
  http_if_modified_since :: "string option"
  http_if_match :: "string option"

text \<open>
  What \<open>Response.make_conditional\<close> decides for a file that was opened: leave the
  response as it is (200 with the whole content), cut it to one range of bytes (206,
  with the start and the length of the range), 304 without a body when the entity tag
  or the date of the request still matches, 412 when \<open>If-Match\<close> fails, or the exception
  \<open>RequestedRangeNotSatisfiable\<close>.
\<close>

datatype verdict =
    Unchanged
  | PartialContent nat nat
  | NotModified
  | PreconditionFailed
  | RangeNotSatisfiable

text \<open>
  The application object: \<open>root_path\<close> is the absolute directory of the module, and
  \<open>conditional\<close> stands for the parsing of the headers above and their comparison with
  the size, the modification time and the entity tag of the file, which are the
  library's and not the program's. A request with none of \<open>Range\<close>, \<open>If-None-Match\<close>,
  \<open>If-Modified-Since\<close> and \<open>If-Match\<close> is left unchanged by the library, whatever the
  file; this much is written into \<open>make_conditional\<close>.
\<close>

record flask =
  root_path :: string
  conditional :: "get_request \<Rightarrow> string \<Rightarrow> bytes \<Rightarrow> verdict"

definition plain :: "get_request \<Rightarrow> bool" where
  "plain req =
     (http_range req = None \<and> http_if_none_match req = None
      \<and> http_if_modified_since req = None \<and> http_if_match req = None)"

definition make_conditional :: "flask \<Rightarrow> get_request \<Rightarrow> string \<Rightarrow> bytes \<Rightarrow> verdict" where
  "make_conditional app req path data =
     (if plain req then Unchanged else conditional app req path data)"

text \<open>
  The response that \<open>send_file\<close> builds for the content of a file and makes
  conditional. A 304 goes out without a body; the slice of a 206 starts at \<open>start\<close>
  and has \<open>n\<close> bytes; the exception leaves \<open>send_file\<close>.
\<close>

definition conditional_response ::
    "flask \<Rightarrow> get_request \<Rightarrow> string \<Rightarrow> bytes \<Rightarrow> exn + response" where
  "conditional_response app req path data =
     (case make_conditional app req path data of
        Unchanged \<Rightarrow> Inr (FileBody data, 200)
      | PartialContent start n \<Rightarrow> Inr (FileBody (take n (drop start data)), 206)
      | NotModified \<Rightarrow> Inr (FileBody [], 304)
      | PreconditionFailed \<Rightarrow> Inr (FileBody data, 412)
      | RangeNotSatisfiable \<Rightarrow> Inl RequestedRangeNotSatisfiable)"

text \<open>\<open>send_file\<close>: the file is opened and read, then the response is made.\<close>

definition send_file :: "flask \<Rightarrow> get_request \<Rightarrow> string \<Rightarrow> fs \<Rightarrow> exn + response" where
  "send_file app req path st =
     (case read_file st path of
        Inl e \<Rightarrow> Inl e
      | Inr data \<Rightarrow> conditional_response app req path data)"

text \<open>
  \<open>flask.send_from_directory\<close>: the safe join of the directory and the name, the join
  with \<open>app.root_path\<close>, the test for a regular file, then \<open>send_file\<close>.
\<close>

definition send_from_directory ::
    "flask \<Rightarrow> get_request \<Rightarrow> string \<Rightarrow> string \<Rightarrow> fs \<Rightarrow> exn + response" where
  "send_from_directory app req directory path st =
     (case safe_join directory path of
        None \<Rightarrow> Inl NotFound
      | Some path_str \<Rightarrow>
          (let path1 = os_path_join (root_path app) path_str
           in if \<not> isfile st path1 then Inl NotFound else send_file app req path1 st))"

section \<open>The handlers\<close>

record file_storage =
  filename :: ustring
  stream :: bytes
  content_length :: int

record request =
  authorization :: "string option"
  files :: "string \<rightharpoonup> file_storage"
  url_root :: string

text \<open>
  What a request draws from outside the program: the 16 bytes of \<open>os.urandom\<close> behind
  \<open>uuid4\<close>, the text of \<open>datetime.now().isoformat()\<close>, and the Unicode table.
\<close>

record environ =
  urandom :: "128 word"
  now_isoformat :: string
  unicode_fold :: "nat \<Rightarrow> string"

text \<open>
  A handler either returns a response or lets an exception escape (Flask then answers
  500). The pause of \<open>time.sleep\<close> at the start of the upload handler has no effect on
  the result and is left out, as are the two routes that serve static documents.
\<close>

datatype outcome = Respond response | Raise exn

text \<open>
  Steps 2 to 4 of \<open>api_upload_file\<close>. \<open>if file:\<close> tests \<open>bool(file.filename)\<close>; a view
  that falls off its end returns \<open>None\<close>, which Flask answers with a \<open>TypeError\<close>.
\<close>

definition store_upload :: "config \<Rightarrow> environ \<Rightarrow> request \<Rightarrow> fs \<Rightarrow> outcome \<times> fs" where
  "store_upload cfg env req st =
     (case files req ''file'' of
        None \<Rightarrow> (Respond (ErrorJson 400 ''No file part in the request body.'', 400), st)
      | Some file \<Rightarrow>
          if filename file = [] then
            (Respond (ErrorJson 400 ''No selected file for upload.'', 400), st)
          else if filename file \<noteq> [] then
            (let filename1 = secure_filename (unicode_fold env) (filename file);
                 unique_id = take 12 (hex (uuid4 (urandom env)));
                 storage_filename = unique_id @ ''-'' @ filename1
             in case save (stream file) (os_path_join (UPLOAD_FOLDER cfg) storage_filename) st of
                  Inl e \<Rightarrow> (Raise e, st)
                | Inr st1 \<Rightarrow>
                    (Respond
                       (SuccessJson (url_root req @ ''share/'' @ unique_id @ ''/'' @ filename1)
                          filename1 (content_length file) (now_isoformat env),
                        200),
                     st1))
          else (Raise TypeError, st))"

definition api_upload_file :: "config \<Rightarrow> environ \<Rightarrow> request \<Rightarrow> fs \<Rightarrow> outcome \<times> fs" where
  "api_upload_file cfg env req st =
     (case authenticate cfg (authorization req) of
        Some r \<Rightarrow> (Respond r, st)
      | None \<Rightarrow> store_upload cfg env req st)"

definition not_found_page :: "string \<Rightarrow> string \<Rightarrow> string" where
  "not_found_page file_id filename1 =
     ''<h1>404 Not Found</h1><p>The file associated with ID <code>'' @ file_id
       @ ''</code> and filename <code>'' @ filename1
       @ ''</code> could not be located on the Kaiiddo Cloud server.</p>''"

text \<open>
  The handler of \<open>/share/<file_id>/<filename>\<close>: the response of the library, or the
  404 page for whatever exception the library raised.
\<close>

definition serve_shared_file ::
    "config \<Rightarrow> flask \<Rightarrow> get_request \<Rightarrow> string \<Rightarrow> string \<Rightarrow> fs \<Rightarrow> response" where
  "serve_shared_file cfg app req file_id filename1 st =
     (case send_from_directory app req (UPLOAD_FOLDER cfg) (file_id @ ''-'' @ filename1) st of
        Inr r \<Rightarrow> r
      | Inl e \<Rightarrow> (Html (not_found_page file_id filename1), 404))"

text \<open>
  The route of the handler. A variable part \<open><name>\<close> of a rule matches one segment of
  the path: at least one character, and no slash. \<open>match_share_route\<close> gives the two
  segments of a path that the rule \<open>/share/<file_id>/<filename>\<close> matches, and
  \<open>get_share\<close> is a GET of such a path: the handler on the two segments, or \<open>None\<close> when
  the rule does not match and the handler is not called (no other rule of the program
  lies below \<open>/share/\<close>, so the router answers by itself).
\<close>

definition match_share_route :: "string \<Rightarrow> (string \<times> string) option" where
  "match_share_route path =
     (if take 7 path = ''/share/'' then
        (case split_sep_from CHR ''/'' [] (drop 7 path) of
           [file_id, filename1] \<Rightarrow>
             if file_id \<noteq> [] \<and> filename1 \<noteq> [] then Some (file_id, filename1) else None
         | _ \<Rightarrow> None)
      else None)"

definition get_share ::
    "config \<Rightarrow> flask \<Rightarrow> get_request \<Rightarrow> string \<Rightarrow> fs \<Rightarrow> response option" where
  "get_share cfg app req path st =
     (case match_share_route path of
        None \<Rightarrow> None
      | Some (file_id, filename1) \<Rightarrow> Some (serve_shared_file cfg app req file_id filename1 st))"

section \<open>Vocabulary of the statements\<close>

text \<open>A single token of \<open>str.split()\<close>: not empty, and free of white space.\<close>

definition single_token :: "string \<Rightarrow> bool" where
  "single_token x = (x \<noteq> [] \<and> list_all (\<lambda>c. \<not> py_isspace c) x)"

subsection \<open>Sample data\<close>

text \<open>
  The end-to-end scenario of the specification: a text file \<open>hello.txt\<close> with content
  \<open>hi\<close>, posted with the bearer token of \<open>app.py\<close> to an empty storage directory.
\<close>

definition empty_fs :: fs where
  "empty_fs = \<lparr>contents = Map.empty, fault = Map.empty, cwd = ''/srv/app''\<rparr>"

definition hello_file :: file_storage where
  "hello_file = \<lparr>filename = ustr ''hello.txt'', stream = [104, 105], content_length = 0\<rparr>"

definition sample_environ :: environ where
  "sample_environ =
     \<lparr>urandom = 0x0123456789abcdef0123456789abcdef,
      now_isoformat = ''2025-11-22T12:05:00'', unicode_fold = (\<lambda>c. [])\<rparr>"

definition bearer_request :: "(string \<rightharpoonup> file_storage) \<Rightarrow> request" where
  "bearer_request fl =
     \<lparr>authorization = Some ''Bearer kaiiddo-ith-8b7c4a1e9f2d6g3h5j0k9l8m7n6p5q4r'',
      files = fl, url_root = ''http://localhost:8000/''\<rparr>"

text \<open>
  The application installed in \<open>/srv/app\<close>, with a library that answers every range
  request by the first byte and every other conditional request by 304; the storage
  that holds the content \<open>hi\<close> under one path; and a GET without any of the conditional
  headers.
\<close>

definition sample_app :: flask where
  "sample_app =
     \<lparr>root_path = ''/srv/app'',
      conditional = (\<lambda>req path data.
         if http_range req \<noteq> None then PartialContent 0 1 else NotModified)\<rparr>"

definition stored_fs :: "string \<Rightarrow> string \<Rightarrow> fs" where
  "stored_fs dir path = \<lparr>contents = [path \<mapsto> [104, 105]], fault = Map.empty, cwd = dir\<rparr>"

definition plain_get :: get_request where
  "plain_get =
     \<lparr>http_range = None, http_if_range = None, http_if_none_match = None,
      http_if_modified_since = None, http_if_match = None\<rparr>"

section \<open>Splitting at white space\<close>

lemma py_split_from_word:
  "\<forall>c\<in>set t. \<not> py_isspace c \<Longrightarrow> py_split_from w (t @ s) = py_split_from (w @ t) s"
  by (induction t arbitrary: w) auto

lemma py_split_from_spaces:
  "\<forall>c\<in>set a. py_isspace c \<Longrightarrow> py_split_from [] (a @ s) = py_split_from [] s"
  by (induction a) auto

lemma py_split_from_Nil_iff:
  "py_split_from w s = [] \<longleftrightarrow> w = [] \<and> (\<forall>c\<in>set s. py_isspace c)"
  by (induction s arbitrary: w) auto

text \<open>
  One step of \<open>str.split()\<close>: skip the leading white space, take the piece up to the next
  white space, go on with the rest.
\<close>

lemma py_split_unfold:
  "py_split s =
     (let s1 = dropWhile py_isspace s
      in if s1 = [] then []
         else takeWhile (\<lambda>c. \<not> py_isspace c) s1 # py_split (dropWhile (\<lambda>c. \<not> py_isspace c) s1))"
proof -
  define a where "a = takeWhile py_isspace s"
  define s1 where "s1 = dropWhile py_isspace s"
  define x where "x = takeWhile (\<lambda>c. \<not> py_isspace c) s1"
  define r where "r = dropWhile (\<lambda>c. \<not> py_isspace c) s1"
  have s: "s = a @ s1" by (simp add: a_def s1_def)
  have a: "\<forall>c\<in>set a. py_isspace c" unfolding a_def by (auto dest: set_takeWhileD)
  have s1: "s1 = x @ r" by (simp add: x_def r_def)
  have x: "\<forall>c\<in>set x. \<not> py_isspace c" unfolding x_def by (auto dest: set_takeWhileD)
  have 1: "py_split s = py_split_from [] s1"
    unfolding py_split_def s using a by (rule py_split_from_spaces)
  show ?thesis
  proof (cases "s1 = []")
    case True
    then show ?thesis using 1 by (simp add: s1_def [symmetric])
  next
    case False
    then have "\<not> py_isspace (hd s1)"
      unfolding s1_def by (metis hd_dropWhile)
    then have xne: "x \<noteq> []" using False unfolding x_def by (cases s1) auto
    have 2: "py_split_from [] s1 = py_split_from x r"
      unfolding s1 using py_split_from_word [OF x, of "[]" r] by simp
    have 3: "py_split_from x r = x # py_split r"
    proof (cases r)
      case Nil
      then show ?thesis using xne by (simp add: py_split_def)
    next
      case (Cons c r')
      then have "py_isspace c"
        unfolding r_def by (metis hd_dropWhile list.sel(1) list.distinct(1))
      then show ?thesis using xne Cons by (simp add: py_split_def)
    qed
    show ?thesis using False 1 2 3
      by (simp add: s1_def [symmetric] x_def [symmetric] r_def [symmetric] Let_def)
  qed
qed

lemma py_split_Cons_D:
  assumes "py_split s = x # rest"
  shows "\<exists>a r. s = a @ x @ r \<and> list_all py_isspace a \<and> single_token x
           \<and> (r = [] \<or> py_isspace (hd r)) \<and> py_split r = rest"
proof -
  define s1 where "s1 = dropWhile py_isspace s"
  define r where "r = dropWhile (\<lambda>c. \<not> py_isspace c) s1"
  from assms have ne: "s1 \<noteq> []"
    and x: "x = takeWhile (\<lambda>c. \<not> py_isspace c) s1"
    and rest: "py_split r = rest"
    unfolding s1_def r_def
    by (subst (asm) py_split_unfold, simp add: Let_def split: if_splits)+
  have "\<not> py_isspace (hd s1)" using ne unfolding s1_def by (metis hd_dropWhile)
  then have "x \<noteq> []" using ne unfolding x by (cases s1) auto
  moreover have "list_all (\<lambda>c. \<not> py_isspace c) x"
    unfolding x list_all_iff by (auto dest: set_takeWhileD)
  moreover have "s = takeWhile py_isspace s @ x @ r"
    unfolding x r_def s1_def by simp
  moreover have "list_all py_isspace (takeWhile py_isspace s)"
    unfolding list_all_iff by (auto dest: set_takeWhileD)
  moreover have "r = [] \<or> py_isspace (hd r)"
    unfolding r_def by (metis hd_dropWhile)
  ultimately show ?thesis using rest unfolding single_token_def by blast
qed

lemma py_split_word_then:
  assumes "list_all py_isspace a" "single_token x" "r = [] \<or> py_isspace (hd r)"
  shows "py_split (a @ x @ r) = x # py_split r"
proof -
  have "py_split (a @ x @ r) = py_split_from [] (x @ r)"
    unfolding py_split_def using assms(1) by (intro py_split_from_spaces) (simp add: list_all_iff)
  also have "\<dots> = py_split_from x r"
    using py_split_from_word [of x "[]" r] assms(2) by (simp add: single_token_def list_all_iff)
  also have "\<dots> = x # py_split r"
    using assms(2,3) by (cases r) (auto simp: single_token_def py_split_def)
  finally show ?thesis .
qed

lemma py_split_spaces: "list_all py_isspace c \<Longrightarrow> py_split c = []"
  by (simp add: py_split_def py_split_from_Nil_iff list_all_iff)

text \<open>
  The strings that \<open>str.split()\<close> cuts into exactly the two pieces \<open>x\<close> and \<open>y\<close>.
\<close>

lemma py_split_two_iff:
  "py_split s = [x, y] \<longleftrightarrow>
     (\<exists>a b c. s = a @ x @ b @ y @ c \<and> list_all py_isspace a \<and> list_all py_isspace b
        \<and> b \<noteq> [] \<and> list_all py_isspace c \<and> single_token x \<and> single_token y)"
proof
  assume "py_split s = [x, y]"
  from py_split_Cons_D [OF this] obtain a r where
    s: "s = a @ x @ r" and a: "list_all py_isspace a" and x: "single_token x"
    and r: "r = [] \<or> py_isspace (hd r)" and sr: "py_split r = [y]" by blast
  from py_split_Cons_D [OF sr] obtain b c where
    r2: "r = b @ y @ c" and b: "list_all py_isspace b" and y: "single_token y"
    and sc: "py_split c = []" by blast
  have "r \<noteq> []" using sr by (auto simp: py_split_def)
  then have "py_isspace (hd r)" using r by simp
  then have "b \<noteq> []" using r2 y by (cases b) (auto simp: single_token_def list_all_iff neq_Nil_conv)
  moreover have "list_all py_isspace c"
    using sc by (simp add: py_split_def py_split_from_Nil_iff list_all_iff)
  ultimately show "\<exists>a b c. s = a @ x @ b @ y @ c \<and> list_all py_isspace a \<and> list_all py_isspace b
        \<and> b \<noteq> [] \<and> list_all py_isspace c \<and> single_token x \<and> single_token y"
    using s r2 a b x y by blast
next
  assume "\<exists>a b c. s = a @ x @ b @ y @ c \<and> list_all py_isspace a \<and> list_all py_isspace b
        \<and> b \<noteq> [] \<and> list_all py_isspace c \<and> single_token x \<and> single_token y"
  then obtain a b c where s: "s = a @ x @ b @ y @ c" and a: "list_all py_isspace a"
    and b: "list_all py_isspace b" "b \<noteq> []" and c: "list_all py_isspace c"
    and x: "single_token x" and y: "single_token y" by blast
  have hb: "py_isspace (hd (b @ y @ c))" using b by (cases b) auto
  have 1: "py_split s = x # py_split (b @ y @ c)"
    unfolding s using a x hb by (intro py_split_word_then) auto
  have hc: "c = [] \<or> py_isspace (hd c)" using c by (cases c) auto
  have 2: "py_split (b @ y @ c) = y # py_split c"
    using b(1) y hc by (rule py_split_word_then)
  show "py_split s = [x, y]" using 1 2 py_split_spaces [OF c] by simp
qed

lemma py_lower_char_space: "py_isspace c \<Longrightarrow> py_lower_char c = c"
  by (auto simp: py_isspace_def py_lower_char_def Let_def)

lemma bearer_no_space: "py_lower scheme = ''bearer'' \<Longrightarrow> single_token scheme"
proof -
  assume h: "py_lower scheme = ''bearer''"
  have "\<not> py_isspace c" if "c \<in> set scheme" for c
  proof
    assume sp: "py_isspace c"
    have "py_lower_char c \<in> set (py_lower scheme)" using that by (simp add: py_lower_def)
    then have "c \<in> set ''bearer''" using h py_lower_char_space [OF sp] by simp
    then show False using sp by (auto simp: py_isspace_def)
  qed
  moreover have "scheme \<noteq> []" using h by (auto simp: py_lower_def)
  ultimately show ?thesis by (simp add: single_token_def list_all_iff)
qed

lemma Bearer_space_split:
  assumes "single_token t"
  shows "py_split (''Bearer '' @ t) = [''Bearer'', t]"
proof -
  have "py_split ([] @ ''Bearer'' @ '' '' @ t @ []) = [''Bearer'', t]"
    unfolding py_split_two_iff using assms
    by (intro exI [of _ "[]"] exI [of _ "'' ''"]) (simp add: single_token_def py_isspace_def)
  then show ?thesis by simp
qed

section \<open>Facts about the library functions\<close>

lemma hex_digit_values:
  "map hex_digit [0,1,2,3,4,5,6,7,8,9,10,11,12,13,14,15] = ''0123456789abcdef''"
  by (simp add: hex_digit_def char_of_def bit_0)

lemma lt16: "n < 16 \<Longrightarrow> n \<in> set [0,1,2,3,4,5,6,7,8,9,10,11,12,13,14,15::nat]"
  by (simp, arith)

lemma hex_digit_cases:
  "n < 16 \<Longrightarrow> hex_digit n \<in> set ''0123456789abcdef''"
proof -
  assume "n < 16"
  then have "n \<in> set [0,1,2,3,4,5,6,7,8,9,10,11,12,13,14,15::nat]" by (rule lt16)
  then have "hex_digit n \<in> hex_digit ` set [0,1,2,3,4,5,6,7,8,9,10,11,12,13,14,15]"
    by (rule imageI)
  then have "hex_digit n \<in> set (map hex_digit [0,1,2,3,4,5,6,7,8,9,10,11,12,13,14,15])"
    by (simp only: set_map)
  then show ?thesis unfolding hex_digit_values .
qed

lemma nibble_bound: "unat ((w :: 128 word) AND 15) < 16"
proof -
  have "unat (w AND 15) \<le> unat (15 :: 128 word)"
    by (rule word_and_le1 [THEN word_le_nat_alt [THEN iffD1]])
  then show ?thesis by simp
qed

lemma set_hex: "set (hex w) \<subseteq> set ''0123456789abcdef''"
  unfolding hex_def using hex_digit_cases [OF nibble_bound] by auto

lemma length_hex: "length (hex w) = 32"
  by (simp add: hex_def)

lemma unique_id_form:
  "length (take 12 (hex w)) = 12 \<and> set (take 12 (hex w)) \<subseteq> set ''0123456789abcdef''"
  using set_hex [of w] set_take_subset [of 12 "hex w"] by (auto simp: length_hex)

lemma unique_id_no_slash: "CHR ''/'' \<notin> set (take 12 (hex w))"
  using unique_id_form [of w] by auto

lemma set_py_strip: "set (py_strip chars s) \<subseteq> set s"
  unfolding py_strip_def by (auto dest!: set_dropWhileD)

lemma set_secure_filename: "set (secure_filename tbl name) \<subseteq> {c. filename_ascii_keep c}"
  unfolding secure_filename_def Let_def using set_py_strip by fastforce

lemma secure_filename_no_slash: "CHR ''/'' \<notin> set (secure_filename tbl name)"
  using set_secure_filename [of tbl name] by (auto simp: filename_ascii_keep_def)

lemma split_sep_from_absent: "d \<notin> set s \<Longrightarrow> split_sep_from d w s = [w @ s]"
  by (induction s arbitrary: w) auto

lemma normpath_no_slash:
  assumes "CHR ''/'' \<notin> set k" "k \<noteq> []"
  shows "normpath k = k"
proof -
  have t: "take 1 k \<noteq> ''/''" using assms by (cases k) auto
  have s: "split_sep_from CHR ''/'' [] k = [k]"
    using split_sep_from_absent [OF assms(1), of "[]"] by simp
  show ?thesis
  proof (cases "k = ''.''")
    case True
    then show ?thesis by (simp add: normpath_def)
  next
    case False
    then show ?thesis using assms(2) t s by (simp add: normpath_def Let_def)
  qed
qed

lemma safe_join_no_slash:
  assumes "CHR ''/'' \<notin> set k" "k \<noteq> ''..''" "d \<noteq> []"
  shows "safe_join d k = Some (os_path_join d k)"
proof (cases "k = []")
  case True
  then show ?thesis using assms(3) by (simp add: safe_join_def)
next
  case False
  have t1: "take 1 k \<noteq> ''/''" using assms(1) by (cases k) auto
  have t3: "take 3 k \<noteq> ''../''"
  proof
    assume "take 3 k = ''../''"
    then have "CHR ''/'' \<in> set (take 3 k)" by simp
    then show False using assms(1) by (auto dest: in_set_takeD)
  qed
  show ?thesis using False assms t1 t3 normpath_no_slash [OF assms(1) False]
    by (simp add: safe_join_def)
qed

lemma os_path_join_relative:
  "CHR ''/'' \<notin> set k \<Longrightarrow>
     os_path_join d k = (if d = [] \<or> last d = CHR ''/'' then d @ k else d @ ''/'' @ k)"
  by (cases k) (auto simp: os_path_join_def)

section \<open>The branches of the handlers\<close>

lemma authenticate_Some_upload:
  "authenticate cfg auth_header = Some r \<Longrightarrow> authorization req = auth_header \<Longrightarrow>
     api_upload_file cfg env req st = (Respond r, st)"
  by (simp add: api_upload_file_def)

lemma authenticate_None_upload:
  "authenticate cfg auth_header = None \<Longrightarrow> authorization req = auth_header \<Longrightarrow>
     api_upload_file cfg env req st = store_upload cfg env req st"
  by (simp add: api_upload_file_def)

lemma authenticate_401:
  assumes "auth_header = None \<or> (\<exists>h. auth_header = Some h \<and> length (py_split h) \<noteq> 2)"
  shows "\<exists>m. authenticate cfg auth_header = Some (ErrorJson 401 m, 401)"
proof (cases auth_header)
  case None
  then show ?thesis by (simp add: authenticate_def)
next
  case (Some h)
  with assms have "length (py_split h) \<noteq> 2" by simp
  then show ?thesis using Some
    by (cases "h = []") (auto simp: authenticate_def split: list.splits)
qed

lemma authenticate_403:
  assumes "py_split h = [scheme, token]"
    and "py_lower scheme \<noteq> ''bearer'' \<or> token \<noteq> FULL_VALID_TOKEN cfg"
  shows "\<exists>m. authenticate cfg (Some h) = Some (ErrorJson 403 m, 403)"
proof -
  from assms(1) have "h \<noteq> []" by (auto simp: py_split_def)
  then show ?thesis using assms by (auto simp: authenticate_def)
qed

lemma authenticate_ok:
  assumes "py_split h = [scheme, token]"
    and "py_lower scheme = ''bearer''" and "token = FULL_VALID_TOKEN cfg"
  shows "authenticate cfg (Some h) = None"
proof -
  from assms(1) have "h \<noteq> []" by (auto simp: py_split_def)
  then show ?thesis using assms by (auto simp: authenticate_def)
qed

lemma authenticate_error: 
  "authenticate cfg h = Some r \<Longrightarrow> \<exists>c m. r = (ErrorJson c m, c) \<and> (c = 401 \<or> c = 403)"
  by (auto simp: authenticate_def split: option.splits if_splits list.splits)

lemma store_upload_missing:
  "files req ''file'' = None \<Longrightarrow>
     store_upload cfg env req st
       = (Respond (ErrorJson 400 ''No file part in the request body.'', 400), st)"
  by (simp add: store_upload_def)

lemma store_upload_empty:
  "files req ''file'' = Some f \<Longrightarrow> filename f = [] \<Longrightarrow>
     store_upload cfg env req st
       = (Respond (ErrorJson 400 ''No selected file for upload.'', 400), st)"
  by (simp add: store_upload_def)

lemma store_upload_named:
  assumes "files req ''file'' = Some f" "filename f \<noteq> []"
  shows "store_upload cfg env req st =
     (let n = secure_filename (unicode_fold env) (filename f);
          uid = take 12 (hex (uuid4 (urandom env)));
          p = resolve st (os_path_join (UPLOAD_FOLDER cfg) (uid @ ''-'' @ n))
      in case fault st p of
           Some e \<Rightarrow> (Raise (OSError e), st)
         | None \<Rightarrow>
             (Respond (SuccessJson (url_root req @ ''share/'' @ uid @ ''/'' @ n) n
                         (content_length f) (now_isoformat env), 200),
              st\<lparr>contents := (contents st)(p \<mapsto> stream f)\<rparr>))"
  using assms by (simp add: store_upload_def save_def Let_def split: option.splits)

lemma api_upload_file_success_D:
  assumes "api_upload_file cfg env req st = (Respond (SuccessJson link n sz dt, code), st')"
  shows "\<exists>f. authenticate cfg (authorization req) = None
           \<and> files req ''file'' = Some f \<and> filename f \<noteq> []
           \<and> n = secure_filename (unicode_fold env) (filename f)
           \<and> link = url_root req @ ''share/'' @ take 12 (hex (uuid4 (urandom env))) @ ''/'' @ n
           \<and> sz = content_length f \<and> dt = now_isoformat env \<and> code = 200
           \<and> fault st (resolve st (os_path_join (UPLOAD_FOLDER cfg)
                          (take 12 (hex (uuid4 (urandom env))) @ ''-'' @ n))) = None
           \<and> st' = st\<lparr>contents := (contents st)
                   (resolve st (os_path_join (UPLOAD_FOLDER cfg)
                      (take 12 (hex (uuid4 (urandom env))) @ ''-'' @ n)) \<mapsto> stream f)\<rparr>"
proof -
  have 1: "authenticate cfg (authorization req) = None"
  proof (cases "authenticate cfg (authorization req)")
    case None then show ?thesis .
  next
    case (Some r)
    then have "\<exists>c m. fst r = ErrorJson c m"
      by (auto simp: authenticate_def split: option.splits if_splits list.splits)
    then show ?thesis using assms Some by (auto simp: api_upload_file_def)
  qed
  then have 2: "store_upload cfg env req st = (Respond (SuccessJson link n sz dt, code), st')"
    using assms by (simp add: api_upload_file_def)
  then obtain f where f: "files req ''file'' = Some f"
    by (cases "files req ''file''") (auto simp: store_upload_missing)
  have ne: "filename f \<noteq> []" using 2 f store_upload_empty [OF f, of cfg env st] by auto
  show ?thesis using 1 2 f ne
    unfolding store_upload_named [OF f ne] Let_def
    by (auto split: option.splits)
qed

lemma api_upload_file_error_D:
  assumes "api_upload_file cfg env req st = (Respond (ErrorJson c m, code), st')"
  shows "st' = st \<and> code = c \<and> (c = 401 \<or> c = 403 \<or> c = 400)"
proof (cases "authenticate cfg (authorization req)")
  case (Some r)
  then show ?thesis using assms authenticate_error [OF Some]
    by (auto simp: api_upload_file_def)
next
  case None
  then have s: "store_upload cfg env req st = (Respond (ErrorJson c m, code), st')"
    using assms by (simp add: api_upload_file_def)
  show ?thesis
  proof (cases "files req ''file''")
    case None
    then show ?thesis using s by (simp add: store_upload_missing)
  next
    case (Some f)
    show ?thesis
    proof (cases "filename f = []")
      case True
      then show ?thesis using s Some by (simp add: store_upload_empty)
    next
      case False
      then show ?thesis using s unfolding store_upload_named [OF Some False] Let_def
        by (auto split: option.splits)
    qed
  qed
qed

lemma api_upload_file_state:
  assumes "api_upload_file cfg env req st = (out, st')"
  shows "st' = st
     \<or> (\<exists>f. files req ''file'' = Some f
           \<and> st' = st\<lparr>contents := (contents st)
                 (resolve st (os_path_join (UPLOAD_FOLDER cfg)
                    (take 12 (hex (uuid4 (urandom env))) @ ''-''
                       @ secure_filename (unicode_fold env) (filename f))) \<mapsto> stream f)\<rparr>)"
proof (cases "authenticate cfg (authorization req)")
  case (Some r)
  then show ?thesis using assms by (simp add: api_upload_file_def)
next
  case None
  then have s: "store_upload cfg env req st = (out, st')"
    using assms by (simp add: api_upload_file_def)
  show ?thesis
  proof (cases "files req ''file''")
    case None
    then show ?thesis using s by (simp add: store_upload_missing)
  next
    case (Some f)
    show ?thesis
    proof (cases "filename f = []")
      case True
      then show ?thesis using s Some by (simp add: store_upload_empty)
    next
      case False
      show ?thesis using s Some unfolding store_upload_named [OF Some False] Let_def
        by (auto split: option.splits)
    qed
  qed
qed

section \<open>The route and the retrieval\<close>

lemma split_sep_from_not_Nil: "split_sep_from d w s \<noteq> []"
  by (induction s arbitrary: w) auto

lemma split_sep_from_single:
  "split_sep_from d w s = [x] \<longleftrightarrow> d \<notin> set s \<and> x = w @ s"
  by (induction s arbitrary: w) (auto simp: split_sep_from_not_Nil)

lemma split_sep_from_two:
  "split_sep_from d w s = [a, b] \<longleftrightarrow>
     (\<exists>i. a = w @ i \<and> s = i @ d # b \<and> d \<notin> set i \<and> d \<notin> set b)"
proof (induction s arbitrary: w)
  case Nil
  then show ?case by simp
next
  case (Cons c cs)
  show ?case
  proof (cases "c = d")
    case True
    have "(\<exists>i. a = w @ i \<and> d # cs = i @ d # b \<and> d \<notin> set i \<and> d \<notin> set b)
            \<longleftrightarrow> (a = w \<and> cs = b \<and> d \<notin> set b)"
      by (auto simp: Cons_eq_append_conv)
    then show ?thesis using True by (auto simp: split_sep_from_single)
  next
    case False
    have "(\<exists>i. a = w @ i \<and> c # cs = i @ d # b \<and> d \<notin> set i \<and> d \<notin> set b)
            \<longleftrightarrow> (\<exists>i. a = (w @ [c]) @ i \<and> cs = i @ d # b \<and> d \<notin> set i \<and> d \<notin> set b)"
      using False by (auto simp: Cons_eq_append_conv)
    then show ?thesis using False Cons.IH [of "w @ [c]"] by simp
  qed
qed

lemma match_share_route_iff:
  "match_share_route path = Some (file_id, name) \<longleftrightarrow>
     path = ''/share/'' @ file_id @ ''/'' @ name
     \<and> file_id \<noteq> [] \<and> CHR ''/'' \<notin> set file_id \<and> name \<noteq> [] \<and> CHR ''/'' \<notin> set name"
proof -
  have s: "split_sep_from CHR ''/'' [] r = [file_id, name] \<longleftrightarrow>
             r = file_id @ ''/'' @ name \<and> CHR ''/'' \<notin> set file_id \<and> CHR ''/'' \<notin> set name" for r
    unfolding split_sep_from_two by auto
  show ?thesis
  proof (cases "take 7 path = ''/share/''")
    case True
    then have p: "path = ''/share/'' @ drop 7 path" by (metis append_take_drop_id)
    have "path = ''/share/'' @ file_id @ ''/'' @ name \<longleftrightarrow> drop 7 path = file_id @ ''/'' @ name"
      using p by (metis same_append_eq)
    then show ?thesis using True s [of "drop 7 path"]
      by (auto simp: match_share_route_def split: list.splits)
  next
    case False
    then show ?thesis by (auto simp: match_share_route_def)
  qed
qed

lemma match_share_route_empty_name:
  "match_share_route (''/share/'' @ file_id @ ''/'') = None"
proof (cases "match_share_route (''/share/'' @ file_id @ ''/'')")
  case None then show ?thesis .
next
  case (Some r)
  obtain i n where r: "r = (i, n)" by (cases r)
  from Some have m: "match_share_route (''/share/'' @ file_id @ ''/'') = Some (i, n)"
    unfolding r .
  note d = m [unfolded match_share_route_iff]
  from d have e: "''/share/'' @ file_id @ ''/'' = ''/share/'' @ i @ ''/'' @ n" by (rule conjunct1)
  from d have n: "n \<noteq> []" and sl: "CHR ''/'' \<notin> set n" by blast+
  from e have "file_id @ ''/'' = (i @ ''/'') @ n" by simp
  then have "last (file_id @ ''/'') = last ((i @ ''/'') @ n)" by (rule arg_cong)
  then have "CHR ''/'' = last n" using n by simp
  then have "CHR ''/'' \<in> set n" using n last_in_set by metis
  then show ?thesis using sl by contradiction
qed

text \<open>
  \<open>UPLOAD_FOLDER\<close> is not the empty string in either deployment, and with the empty
  string the module fails when it is loaded (\<open>os.makedirs('')\<close>), so no request is ever
  served; the statements about a retrieval take a folder that is not empty. For a key
  without a slash the safe join and \<open>normpath\<close> change nothing, and the handler is a
  read of one path followed by the conditional response.
\<close>

lemma send_file_missing: "\<not> isfile st p \<Longrightarrow> \<exists>e. send_file app req p st = Inl e"
  by (auto simp: isfile_def send_file_def read_file_def split: option.splits)

lemma serve_shared_file_segments:
  assumes "CHR ''/'' \<notin> set file_id" "CHR ''/'' \<notin> set name" "UPLOAD_FOLDER cfg \<noteq> []"
  shows "serve_shared_file cfg app req file_id name st =
     (case read_file st (os_path_join (root_path app)
                           (os_path_join (UPLOAD_FOLDER cfg) (file_id @ ''-'' @ name))) of
        Inl e \<Rightarrow> (Html (not_found_page file_id name), 404)
      | Inr data \<Rightarrow>
          (case conditional_response app req
                  (os_path_join (root_path app)
                     (os_path_join (UPLOAD_FOLDER cfg) (file_id @ ''-'' @ name))) data of
             Inl e \<Rightarrow> (Html (not_found_page file_id name), 404)
           | Inr r \<Rightarrow> r))"
proof -
  have k: "CHR ''/'' \<notin> set (file_id @ ''-'' @ name)" using assms by simp
  have d: "file_id @ ''-'' @ name \<noteq> ''..''"
  proof
    assume e: "file_id @ ''-'' @ name = ''..''"
    have "CHR ''-'' \<in> set (file_id @ ''-'' @ name)" by simp
    then have "CHR ''-'' \<in> set ''..''" by (simp only: e)
    then show False by simp
  qed
  show ?thesis
    unfolding serve_shared_file_def send_from_directory_def
      safe_join_no_slash [OF k d assms(3)]
    by (auto simp: Let_def isfile_def send_file_def read_file_def split: option.splits sum.splits)
qed

lemma conditional_response_plain:
  "plain req \<Longrightarrow> conditional_response app req path data = Inr (FileBody data, 200)"
  by (simp add: conditional_response_def make_conditional_def)


section \<open>The sample data, evaluated\<close>

lemma bearer_request_authenticated:
  "authenticate app_config (authorization (bearer_request fl)) = None"
  by (simp add: bearer_request_def authenticate_def py_split_def py_isspace_def py_lower_def
        py_lower_char_def app_config_def VALID_API_KEY_PREFIX_def char_of_def bit_0)

lemma sample_environ_unique_id:
  "take 12 (hex (uuid4 (urandom sample_environ))) = ''0123456789ab''"
  by code_simp

lemma sample_environ_hello:
  "secure_filename (unicode_fold sample_environ) (filename hello_file) = ''hello.txt''"
  by code_simp

lemma sample_environ_dots:
  "secure_filename (unicode_fold sample_environ) (ustr ''../..'') = []"
  by code_simp

lemma sample_environ_passwd:
  "secure_filename (unicode_fold sample_environ) (ustr ''../../etc/passwd'') = ''etc_passwd''"
  by code_simp

lemma hello_request_file:
  "files (bearer_request [''file'' \<mapsto> hello_file]) ''file'' = Some hello_file"
  by (simp add: bearer_request_def)

lemma hello_path:
  "resolve empty_fs (os_path_join (UPLOAD_FOLDER app_config) (''0123456789ab'' @ ''-'' @ ''hello.txt''))
     = ''/srv/app/uploaded_files/0123456789ab-hello.txt''"
  by (simp add: resolve_def os_path_join_def app_config_def empty_fs_def)

lemma hello_read_path:
  "resolve (stored_fs ''/srv/app'' p)
     (os_path_join (root_path sample_app)
        (os_path_join (UPLOAD_FOLDER app_config) (''0123456789ab'' @ ''-'' @ ''hello.txt'')))
     = ''/srv/app/uploaded_files/0123456789ab-hello.txt''"
  by (simp add: resolve_def os_path_join_def app_config_def stored_fs_def sample_app_def)

lemma hello_segments:
  "CHR ''/'' \<notin> set ''0123456789ab'' \<and> CHR ''/'' \<notin> set ''hello.txt''
     \<and> UPLOAD_FOLDER app_config \<noteq> []"
  by (simp add: app_config_def)

lemma hello_upload:
  "api_upload_file app_config sample_environ (bearer_request [''file'' \<mapsto> hello_file]) empty_fs
     = (Respond (SuccessJson ''http://localhost:8000/share/0123456789ab/hello.txt'' ''hello.txt''
                   0 ''2025-11-22T12:05:00'', 200),
        stored_fs ''/srv/app'' ''/srv/app/uploaded_files/0123456789ab-hello.txt'')"
proof -
  have 3: "files (bearer_request [''file'' \<mapsto> hello_file]) ''file'' = Some hello_file"
    "filename hello_file \<noteq> []"
    by (simp_all add: bearer_request_def hello_file_def ustr_def)
  show ?thesis
    unfolding api_upload_file_def bearer_request_authenticated option.case
      store_upload_named [OF 3] Let_def sample_environ_unique_id sample_environ_hello
    by (simp add: sample_environ_def hello_file_def
          bearer_request_def empty_fs_def stored_fs_def resolve_def app_config_def os_path_join_def)
qed

lemma passwd_upload:
  "api_upload_file app_config sample_environ
     (bearer_request [''file'' \<mapsto> hello_file\<lparr>filename := ustr ''../../etc/passwd''\<rparr>]) empty_fs
     = (Respond (SuccessJson ''http://localhost:8000/share/0123456789ab/etc_passwd'' ''etc_passwd''
                   0 ''2025-11-22T12:05:00'', 200),
        stored_fs ''/srv/app'' ''/srv/app/uploaded_files/0123456789ab-etc_passwd'')"
proof -
  have 1: "files (bearer_request [''file'' \<mapsto> hello_file\<lparr>filename := ustr ''../../etc/passwd''\<rparr>])
             ''file'' = Some (hello_file\<lparr>filename := ustr ''../../etc/passwd''\<rparr>)"
    by (simp add: bearer_request_def)
  have 2: "filename (hello_file\<lparr>filename := ustr ''../../etc/passwd''\<rparr>) \<noteq> []"
    by (simp add: ustr_def)
  have 3: "secure_filename (unicode_fold sample_environ)
             (filename (hello_file\<lparr>filename := ustr ''../../etc/passwd''\<rparr>)) = ''etc_passwd''"
    using sample_environ_passwd by simp
  show ?thesis
    unfolding api_upload_file_def bearer_request_authenticated option.case
      store_upload_named [OF 1 2] Let_def sample_environ_unique_id 3
    by (simp add: sample_environ_def hello_file_def
          bearer_request_def empty_fs_def stored_fs_def resolve_def app_config_def os_path_join_def)
qed

lemma dots_upload:
  "api_upload_file app_config sample_environ
     (bearer_request [''file'' \<mapsto> hello_file\<lparr>filename := ustr ''../..''\<rparr>]) empty_fs
     = (Respond (SuccessJson ''http://localhost:8000/share/0123456789ab/'' []
                   0 ''2025-11-22T12:05:00'', 200),
        stored_fs ''/srv/app'' ''/srv/app/uploaded_files/0123456789ab-'')"
proof -
  have 1: "files (bearer_request [''file'' \<mapsto> hello_file\<lparr>filename := ustr ''../..''\<rparr>]) ''file''
             = Some (hello_file\<lparr>filename := ustr ''../..''\<rparr>)"
    by (simp add: bearer_request_def)
  have 2: "filename (hello_file\<lparr>filename := ustr ''../..''\<rparr>) \<noteq> []"
    by (simp add: ustr_def)
  have 3: "secure_filename (unicode_fold sample_environ)
             (filename (hello_file\<lparr>filename := ustr ''../..''\<rparr>)) = []"
    using sample_environ_dots by simp
  show ?thesis
    unfolding api_upload_file_def bearer_request_authenticated option.case
      store_upload_named [OF 1 2] Let_def sample_environ_unique_id 3
    by (simp add: sample_environ_def hello_file_def
          bearer_request_def empty_fs_def stored_fs_def resolve_def app_config_def os_path_join_def)
qed

lemma hello_upload_elsewhere:
  "api_upload_file app_config sample_environ (bearer_request [''file'' \<mapsto> hello_file])
     (empty_fs\<lparr>cwd := ''/home/user''\<rparr>)
     = (Respond (SuccessJson ''http://localhost:8000/share/0123456789ab/hello.txt'' ''hello.txt''
                   0 ''2025-11-22T12:05:00'', 200),
        stored_fs ''/home/user'' ''/home/user/uploaded_files/0123456789ab-hello.txt'')"
proof -
  have 3: "files (bearer_request [''file'' \<mapsto> hello_file]) ''file'' = Some hello_file"
    "filename hello_file \<noteq> []"
    by (simp_all add: bearer_request_def hello_file_def ustr_def)
  show ?thesis
    unfolding api_upload_file_def bearer_request_authenticated option.case
      store_upload_named [OF 3] Let_def sample_environ_unique_id sample_environ_hello
    by (simp add: sample_environ_def hello_file_def
          bearer_request_def empty_fs_def stored_fs_def resolve_def app_config_def os_path_join_def)
qed

lemma plain_plain_get: "plain plain_get"
  by (simp add: plain_def plain_get_def)

section \<open>The round trip where it holds\<close>

text \<open>
  An upload writes below the working directory of the process, a retrieval reads below
  the directory of the module. The two meet when \<open>UPLOAD_FOLDER\<close> is absolute (as in
  \<open>api/app.py\<close>) or the process runs in the directory of the module; then, for a
  sanitized name that is not empty, a GET of the share link without conditional headers
  answers 200 with the bytes of the upload.
\<close>

lemma upload_then_retrieve:
  assumes "api_upload_file cfg env req st = (Respond (SuccessJson link n sz dt, code), st')"
    and "n \<noteq> []" and "UPLOAD_FOLDER cfg \<noteq> []" and "plain greq"
    and "take 1 (UPLOAD_FOLDER cfg) = ''/''
         \<or> (cwd st = root_path app \<and> take 1 (root_path app) = ''/'')"
  shows "\<exists>f unique_id. files req ''file'' = Some f
           \<and> link = url_root req @ ''share/'' @ unique_id @ ''/'' @ n
           \<and> get_share cfg app greq (''/share/'' @ unique_id @ ''/'' @ n) st'
                = Some (FileBody (stream f), 200)"
proof -
  define uid where "uid = take 12 (hex (uuid4 (urandom env)))"
  define key where "key = uid @ ''-'' @ n"
  from api_upload_file_success_D [OF assms(1)] obtain f where
    f: "files req ''file'' = Some f"
    and n: "n = secure_filename (unicode_fold env) (filename f)"
    and l: "link = url_root req @ ''share/'' @ uid @ ''/'' @ n"
    and ok: "fault st (resolve st (os_path_join (UPLOAD_FOLDER cfg) key)) = None"
    and st': "st' = st\<lparr>contents := (contents st)
                   (resolve st (os_path_join (UPLOAD_FOLDER cfg) key) \<mapsto> stream f)\<rparr>"
    unfolding uid_def key_def by blast
  have 1: "CHR ''/'' \<notin> set uid" unfolding uid_def by (rule unique_id_no_slash)
  have 2: "CHR ''/'' \<notin> set n" unfolding n by (rule secure_filename_no_slash)
  have 3: "uid \<noteq> []" using unique_id_form [of "uuid4 (urandom env)"] unfolding uid_def by auto
  have m: "match_share_route (''/share/'' @ uid @ ''/'' @ n) = Some (uid, n)"
    unfolding match_share_route_iff using 1 2 3 assms(2) by simp
  have k: "take 1 key \<noteq> ''/''" using 1 3 unfolding key_def by (cases uid) auto
  have j: "take 1 (os_path_join (UPLOAD_FOLDER cfg) key) = take 1 (UPLOAD_FOLDER cfg)"
    using k assms(3) by (cases "UPLOAD_FOLDER cfg") (auto simp: os_path_join_def)
  have same: "resolve st' (os_path_join (root_path app) (os_path_join (UPLOAD_FOLDER cfg) key))
                = resolve st (os_path_join (UPLOAD_FOLDER cfg) key)"
  proof -
    from assms(5) show ?thesis
    proof
      assume a: "take 1 (UPLOAD_FOLDER cfg) = ''/''"
      then show ?thesis using j by (simp add: resolve_def os_path_join_def st')
    next
      assume a: "cwd st = root_path app \<and> take 1 (root_path app) = ''/''"
      then have r: "root_path app \<noteq> []" by auto
      have "take 1 (os_path_join (root_path app) (os_path_join (UPLOAD_FOLDER cfg) key)) = ''/''"
        using a r by (cases "root_path app") (auto simp: os_path_join_def)
      then have "resolve st' (os_path_join (root_path app) (os_path_join (UPLOAD_FOLDER cfg) key))
                   = os_path_join (root_path app) (os_path_join (UPLOAD_FOLDER cfg) key)"
        by (simp add: resolve_def os_path_join_def)
      then show ?thesis using a by (simp add: resolve_def)
    qed
  qed
  have rd: "read_file st' (os_path_join (root_path app) (os_path_join (UPLOAD_FOLDER cfg) key))
              = Inr (stream f)"
    unfolding read_file_def same using ok by (simp add: st')
  have "serve_shared_file cfg app greq uid n st' = (FileBody (stream f), 200)"
    unfolding serve_shared_file_segments [OF 1 2 assms(3)] key_def [symmetric] rd
    by (simp add: conditional_response_plain [OF assms(4)])
  then have "get_share cfg app greq (''/share/'' @ uid @ ''/'' @ n) st'
               = Some (FileBody (stream f), 200)"
    unfolding get_share_def m by simp
  then show ?thesis using f l by blast
qed

section \<open>The claims\<close>

text \<open>
  \<^bold>\<open>C1\<close> (round trip) fails on the program at two inputs, both evaluated here.
  First: the filename \<open>../..\<close> passes the test for an empty filename, sanitizes to the
  empty string and is stored; the upload answers 200 with a share link that ends in a
  slash, and the rule \<open>/share/<file_id>/<filename>\<close> does not match the path of that
  link, so the handler is never called for it. Second: with the relative
  \<open>uploaded_files\<close> of \<open>app.py\<close> and a process that does not run in the directory of the
  module, the upload of \<open>hello.txt\<close> succeeds and a GET of its share link, without any
  conditional header, is answered by the 404 page.
\<close>

theorem share_link_not_served:
  "api_upload_file app_config sample_environ
     (bearer_request [''file'' \<mapsto> hello_file\<lparr>filename := ustr ''../..''\<rparr>]) empty_fs
     = (Respond (SuccessJson ''http://localhost:8000/share/0123456789ab/'' []
                   0 ''2025-11-22T12:05:00'', 200),
        stored_fs ''/srv/app'' ''/srv/app/uploaded_files/0123456789ab-'')
   \<and> get_share app_config sample_app plain_get ''/share/0123456789ab/''
        (stored_fs ''/srv/app'' ''/srv/app/uploaded_files/0123456789ab-'') = None
   \<and> api_upload_file app_config sample_environ (bearer_request [''file'' \<mapsto> hello_file])
        (empty_fs\<lparr>cwd := ''/home/user''\<rparr>)
     = (Respond (SuccessJson ''http://localhost:8000/share/0123456789ab/hello.txt'' ''hello.txt''
                   0 ''2025-11-22T12:05:00'', 200),
        stored_fs ''/home/user'' ''/home/user/uploaded_files/0123456789ab-hello.txt'')
   \<and> get_share app_config sample_app plain_get ''/share/0123456789ab/hello.txt''
        (stored_fs ''/home/user'' ''/home/user/uploaded_files/0123456789ab-hello.txt'')
     = Some (Html (not_found_page ''0123456789ab'' ''hello.txt''), 404)"
proof -
  have 1: "get_share app_config sample_app plain_get ''/share/0123456789ab/''
        (stored_fs ''/srv/app'' ''/srv/app/uploaded_files/0123456789ab-'') = None"
    using match_share_route_empty_name [of "''0123456789ab''"] by (simp add: get_share_def)
  have m: "match_share_route (''/share/'' @ ''0123456789ab'' @ ''/'' @ ''hello.txt'')
             = Some (''0123456789ab'', ''hello.txt'')"
    unfolding match_share_route_iff by simp
  have p: "resolve (stored_fs ''/home/user'' ''/home/user/uploaded_files/0123456789ab-hello.txt'')
             (os_path_join (root_path sample_app)
                (os_path_join (UPLOAD_FOLDER app_config) (''0123456789ab'' @ ''-'' @ ''hello.txt'')))
           = ''/srv/app/uploaded_files/0123456789ab-hello.txt''"
    by (simp add: resolve_def os_path_join_def app_config_def stored_fs_def sample_app_def)
  have s: "serve_shared_file app_config sample_app plain_get ''0123456789ab'' ''hello.txt''
             (stored_fs ''/home/user'' ''/home/user/uploaded_files/0123456789ab-hello.txt'')
           = (Html (not_found_page ''0123456789ab'' ''hello.txt''), 404)"
    unfolding serve_shared_file_segments [OF hello_segments [THEN conjunct1]
        hello_segments [THEN conjunct2, THEN conjunct1] hello_segments [THEN conjunct2, THEN conjunct2]]
      read_file_def p
    by (simp add: stored_fs_def)
  have 2: "get_share app_config sample_app plain_get ''/share/0123456789ab/hello.txt''
        (stored_fs ''/home/user'' ''/home/user/uploaded_files/0123456789ab-hello.txt'')
     = Some (Html (not_found_page ''0123456789ab'' ''hello.txt''), 404)"
    using m s by (simp add: get_share_def)
  show ?thesis using dots_upload 1 hello_upload_elsewhere 2 by (intro conjI)
qed

text \<open>
  \<^bold>\<open>C2\<close> (the three outcomes of the token check). A header that is absent, or that
  \<open>str.split()\<close> does not cut into exactly two pieces, is answered 401 with error code 401;
  two pieces of which the first does not lower-case to \<open>bearer\<close> or the second is not
  the configured token are answered 403 with error code 403; otherwise the token check
  returns nothing and the handler goes on with the file check. In the first two cases the
  storage is returned as it was.
\<close>

theorem authenticate_three_way:
  "((auth_header = None \<or> (\<exists>h. auth_header = Some h \<and> length (py_split h) \<noteq> 2))
      \<longrightarrow> (\<exists>m. authenticate cfg auth_header = Some (ErrorJson 401 m, 401)
               \<and> (\<forall>env req st. authorization req = auth_header
                     \<longrightarrow> api_upload_file cfg env req st = (Respond (ErrorJson 401 m, 401), st))))
   \<and> (\<forall>h scheme token. auth_header = Some h \<and> py_split h = [scheme, token]
          \<and> (py_lower scheme \<noteq> ''bearer'' \<or> token \<noteq> FULL_VALID_TOKEN cfg)
      \<longrightarrow> (\<exists>m. authenticate cfg auth_header = Some (ErrorJson 403 m, 403)
               \<and> (\<forall>env req st. authorization req = auth_header
                     \<longrightarrow> api_upload_file cfg env req st = (Respond (ErrorJson 403 m, 403), st))))
   \<and> (\<forall>h scheme token. auth_header = Some h \<and> py_split h = [scheme, token]
          \<and> py_lower scheme = ''bearer'' \<and> token = FULL_VALID_TOKEN cfg
      \<longrightarrow> authenticate cfg auth_header = None
          \<and> (\<forall>env req st. authorization req = auth_header
                \<longrightarrow> api_upload_file cfg env req st = store_upload cfg env req st))"
  (is "?A \<and> ?B \<and> ?C")
proof (intro conjI)
  show ?A using authenticate_401 [of auth_header cfg] authenticate_Some_upload [of cfg auth_header]
    by blast
  show ?B using authenticate_403 [of _ _ _ cfg] authenticate_Some_upload [of cfg auth_header]
    by blast
  show ?C
  proof (intro allI impI)
    fix h scheme token
    assume a: "auth_header = Some h \<and> py_split h = [scheme, token]
          \<and> py_lower scheme = ''bearer'' \<and> token = FULL_VALID_TOKEN cfg"
    then have n: "authenticate cfg auth_header = None"
      using authenticate_ok [of h scheme token cfg] by simp
    show "authenticate cfg auth_header = None
          \<and> (\<forall>env req st. authorization req = auth_header
                \<longrightarrow> api_upload_file cfg env req st = store_upload cfg env req st)"
      using n authenticate_None_upload [OF n] by simp
  qed
qed

theorem authenticate_three_way_witness:
  "api_upload_file app_config sample_environ \<lparr>authorization = None, files = Map.empty, url_root = []\<rparr> empty_fs
     = (Respond (ErrorJson 401 ''Authentication required. Missing Authorization header.'', 401), empty_fs)
   \<and> api_upload_file app_config sample_environ \<lparr>authorization = Some ''Bearer'', files = Map.empty, url_root = []\<rparr> empty_fs
     = (Respond (ErrorJson 401
          ''Invalid Authorization header format. Must be 'Bearer [token]'.'', 401), empty_fs)
   \<and> api_upload_file app_config sample_environ
        \<lparr>authorization = Some ''Bearer wrong-token'', files = Map.empty, url_root = []\<rparr> empty_fs
     = (Respond (ErrorJson 403
          ''Invalid Bearer Token. Token must match: kaiiddo-ith-8b7c4a1e9f2d6g3h5j0k9l8m7n6p5q4r'',
          403), empty_fs)
   \<and> api_upload_file app_config sample_environ
        \<lparr>authorization = Some ''Bearer kaiiddo-ith-8b7c4a1e9f2d6g3h5j0k9l8m7n6p5q4r'',
         files = Map.empty, url_root = []\<rparr> empty_fs
     = store_upload app_config sample_environ
        \<lparr>authorization = Some ''Bearer kaiiddo-ith-8b7c4a1e9f2d6g3h5j0k9l8m7n6p5q4r'',
         files = Map.empty, url_root = []\<rparr> empty_fs"
proof -
  have s1: "py_split ''Bearer'' = [''Bearer'']"
    by (simp add: py_split_def py_isspace_def)
  have s2: "py_split ''Bearer wrong-token'' = [''Bearer'', ''wrong-token'']"
    by (simp add: py_split_def py_isspace_def)
  have s3: "py_split ''Bearer kaiiddo-ith-8b7c4a1e9f2d6g3h5j0k9l8m7n6p5q4r''
              = [''Bearer'', ''kaiiddo-ith-8b7c4a1e9f2d6g3h5j0k9l8m7n6p5q4r'']"
    by (simp add: py_split_def py_isspace_def)
  have lo: "py_lower ''Bearer'' = ''bearer''"
    by (simp add: py_lower_def py_lower_char_def char_of_def bit_0)
  have tk: "FULL_VALID_TOKEN app_config = ''kaiiddo-ith-8b7c4a1e9f2d6g3h5j0k9l8m7n6p5q4r''"
    by (simp add: app_config_def VALID_API_KEY_PREFIX_def)
  show ?thesis
    using authenticate_three_way [of None app_config]
      authenticate_three_way [of "Some ''Bearer''" app_config]
      authenticate_three_way [of "Some ''Bearer wrong-token''" app_config]
      authenticate_three_way
        [of "Some ''Bearer kaiiddo-ith-8b7c4a1e9f2d6g3h5j0k9l8m7n6p5q4r''" app_config]
    by (simp add: s1 s2 s3 lo tk authenticate_def)
qed

text \<open>
  \<^bold>\<open>C3\<close>, as amended. The header \<open>Bearer\<close>, one space, the configured token is accepted
  (the token being a single token, as both configured tokens are). The accepted headers
  are exactly those made of optional white space, a scheme that lower-cases to
  \<open>bearer\<close>, white space, the configured token and optional white space; every other
  header is answered 401 or 403. The claim as written, that only the exact string
  \<open>Bearer\<close>, space, token is accepted, is refuted below: the comparison of the scheme
  goes through \<open>lower()\<close> and the pieces come from \<open>split()\<close>.
\<close>

theorem authenticate_accepts:
  "(single_token (FULL_VALID_TOKEN cfg)
      \<longrightarrow> authenticate cfg (Some (''Bearer '' @ FULL_VALID_TOKEN cfg)) = None)
   \<and> (authenticate cfg auth_header = None \<longleftrightarrow>
        single_token (FULL_VALID_TOKEN cfg)
        \<and> (\<exists>a scheme b c. auth_header = Some (a @ scheme @ b @ FULL_VALID_TOKEN cfg @ c)
              \<and> list_all py_isspace a \<and> list_all py_isspace b \<and> b \<noteq> []
              \<and> list_all py_isspace c \<and> py_lower scheme = ''bearer''))
   \<and> (authenticate cfg auth_header \<noteq> None \<longrightarrow>
        (\<exists>m. authenticate cfg auth_header = Some (ErrorJson 401 m, 401))
        \<or> (\<exists>m. authenticate cfg auth_header = Some (ErrorJson 403 m, 403)))"
  (is "?A \<and> ?B \<and> ?C")
proof (intro conjI)
  have lo: "py_lower ''Bearer'' = ''bearer''"
    by (simp add: py_lower_def py_lower_char_def char_of_def bit_0)
  show ?A using Bearer_space_split [of "FULL_VALID_TOKEN cfg"] lo
    by (auto intro: authenticate_ok)
  show ?B
  proof
    assume ok: "authenticate cfg auth_header = None"
    then obtain h where h: "auth_header = Some h" "h \<noteq> []"
      by (cases auth_header) (auto simp: authenticate_def split: if_splits)
    from ok h obtain scheme where sp: "py_split h = [scheme, FULL_VALID_TOKEN cfg]"
      and lo: "py_lower scheme = ''bearer''"
      by (auto simp: authenticate_def split: list.splits if_splits)
    from sp [unfolded py_split_two_iff] obtain a b c where
      "h = a @ scheme @ b @ FULL_VALID_TOKEN cfg @ c" "list_all py_isspace a"
      "list_all py_isspace b" "b \<noteq> []" "list_all py_isspace c" "single_token (FULL_VALID_TOKEN cfg)"
      by blast
    then show "single_token (FULL_VALID_TOKEN cfg)
        \<and> (\<exists>a scheme b c. auth_header = Some (a @ scheme @ b @ FULL_VALID_TOKEN cfg @ c)
              \<and> list_all py_isspace a \<and> list_all py_isspace b \<and> b \<noteq> []
              \<and> list_all py_isspace c \<and> py_lower scheme = ''bearer'')"
      using h lo by blast
  next
    assume "single_token (FULL_VALID_TOKEN cfg)
        \<and> (\<exists>a scheme b c. auth_header = Some (a @ scheme @ b @ FULL_VALID_TOKEN cfg @ c)
              \<and> list_all py_isspace a \<and> list_all py_isspace b \<and> b \<noteq> []
              \<and> list_all py_isspace c \<and> py_lower scheme = ''bearer'')"
    then obtain a scheme b c where w: "single_token (FULL_VALID_TOKEN cfg)"
      and h: "auth_header = Some (a @ scheme @ b @ FULL_VALID_TOKEN cfg @ c)"
      and sp: "list_all py_isspace a" "list_all py_isspace b" "b \<noteq> []" "list_all py_isspace c"
      and lo: "py_lower scheme = ''bearer''" by blast
    have "py_split (a @ scheme @ b @ FULL_VALID_TOKEN cfg @ c) = [scheme, FULL_VALID_TOKEN cfg]"
      unfolding py_split_two_iff using w sp bearer_no_space [OF lo] by blast
    then show "authenticate cfg auth_header = None"
      unfolding h using lo by (intro authenticate_ok) auto
  qed
  show ?C
  proof (cases auth_header)
    case None
    then show ?thesis by (simp add: authenticate_def)
  next
    case (Some h)
    then show ?thesis
      by (cases "h = []") (auto simp: authenticate_def split: list.splits)
  qed
qed

theorem authenticate_accepts_witness:
  "single_token (FULL_VALID_TOKEN app_config)
   \<and> authenticate app_config (Some (''Bearer '' @ FULL_VALID_TOKEN app_config)) = None
   \<and> single_token (FULL_VALID_TOKEN api_app_config)
   \<and> authenticate api_app_config (Some (''Bearer '' @ FULL_VALID_TOKEN api_app_config)) = None
   \<and> authenticate app_config (Some ''Basic abc'')
        = Some (ErrorJson 403
            ''Invalid Bearer Token. Token must match: kaiiddo-ith-8b7c4a1e9f2d6g3h5j0k9l8m7n6p5q4r'',
            403)
   \<and> ((\<exists>m. authenticate app_config (Some ''Basic abc'') = Some (ErrorJson 401 m, 401))
        \<or> (\<exists>m. authenticate app_config (Some ''Basic abc'') = Some (ErrorJson 403 m, 403)))"
proof -
  have w: "single_token (FULL_VALID_TOKEN app_config)"
    by (simp add: single_token_def app_config_def VALID_API_KEY_PREFIX_def py_isspace_def)
  have w': "single_token (FULL_VALID_TOKEN api_app_config)"
    by (simp add: single_token_def api_app_config_def api_VALID_API_KEY_PREFIX_def py_isspace_def)
  have b: "authenticate app_config (Some ''Basic abc'')
        = Some (ErrorJson 403
            ''Invalid Bearer Token. Token must match: kaiiddo-ith-8b7c4a1e9f2d6g3h5j0k9l8m7n6p5q4r'',
            403)"
    by (simp add: authenticate_def py_split_def py_isspace_def py_lower_def py_lower_char_def
        app_config_def VALID_API_KEY_PREFIX_def char_of_def bit_0)
  note a = authenticate_accepts [of app_config None, THEN conjunct1, rule_format, OF w]
  note a' = authenticate_accepts [of api_app_config None, THEN conjunct1, rule_format, OF w']
  from b have ne: "authenticate app_config (Some ''Basic abc'') \<noteq> None" by simp
  note c = authenticate_accepts [of app_config "Some ''Basic abc''", THEN conjunct2,
             THEN conjunct2, rule_format, OF ne]
  show ?thesis using w a w' a' b c by (intro conjI)
qed

text \<open>
  The header with the scheme in lower case is not the string \<open>Bearer\<close>, space, token,
  and it is accepted.
\<close>

theorem only_exact_header_counterexample:
  "''bearer kaiiddo-ith-8b7c4a1e9f2d6g3h5j0k9l8m7n6p5q4r'' \<noteq> ''Bearer '' @ FULL_VALID_TOKEN app_config
   \<and> authenticate app_config (Some ''bearer kaiiddo-ith-8b7c4a1e9f2d6g3h5j0k9l8m7n6p5q4r'') = None"
  by (simp add: authenticate_def py_split_def py_isspace_def py_lower_def py_lower_char_def
        app_config_def VALID_API_KEY_PREFIX_def)

text \<open>
  \<^bold>\<open>C4\<close> (the two validation failures). After a successful token check: without a
  part named \<open>file\<close> the answer is 400 \<open>No file part in the request body.\<close>; with the
  part present and an empty filename the answer is 400 \<open>No selected file for upload.\<close>;
  with the part present and a filename that is not empty there is no validation failure
  left: the handler answers 200, or the write to the storage raises.
\<close>

theorem upload_validation_failures:
  assumes "authenticate cfg (authorization req) = None"
  shows "(files req ''file'' = None \<longrightarrow>
            api_upload_file cfg env req st
              = (Respond (ErrorJson 400 ''No file part in the request body.'', 400), st))
       \<and> (\<forall>f. files req ''file'' = Some f \<and> filename f = [] \<longrightarrow>
            api_upload_file cfg env req st
              = (Respond (ErrorJson 400 ''No selected file for upload.'', 400), st))
       \<and> (\<forall>f. files req ''file'' = Some f \<and> filename f \<noteq> [] \<longrightarrow>
            (\<exists>e. api_upload_file cfg env req st = (Raise (OSError e), st))
            \<or> (\<exists>link n sz dt st'.
                  api_upload_file cfg env req st = (Respond (SuccessJson link n sz dt, 200), st')))"
proof -
  have u: "api_upload_file cfg env req st = store_upload cfg env req st"
    using assms by (simp add: api_upload_file_def)
  show ?thesis unfolding u
  proof (intro conjI allI impI)
    assume "files req ''file'' = None"
    then show "store_upload cfg env req st
              = (Respond (ErrorJson 400 ''No file part in the request body.'', 400), st)"
      by (rule store_upload_missing)
  next
    fix f assume "files req ''file'' = Some f \<and> filename f = []"
    then show "store_upload cfg env req st
              = (Respond (ErrorJson 400 ''No selected file for upload.'', 400), st)"
      by (simp add: store_upload_empty)
  next
    fix f assume "files req ''file'' = Some f \<and> filename f \<noteq> []"
    then have "files req ''file'' = Some f" "filename f \<noteq> []" by simp_all
    from store_upload_named [OF this, of cfg env st]
    show "(\<exists>e. store_upload cfg env req st = (Raise (OSError e), st))
            \<or> (\<exists>link n sz dt st'.
                  store_upload cfg env req st = (Respond (SuccessJson link n sz dt, 200), st'))"
      by (auto simp: Let_def split: option.splits)
  qed
qed

theorem upload_validation_failures_witness:
  "api_upload_file app_config sample_environ (bearer_request Map.empty) empty_fs
     = (Respond (ErrorJson 400 ''No file part in the request body.'', 400), empty_fs)
   \<and> api_upload_file app_config sample_environ
        (bearer_request [''file'' \<mapsto> hello_file\<lparr>filename := []\<rparr>]) empty_fs
     = (Respond (ErrorJson 400 ''No selected file for upload.'', 400), empty_fs)
   \<and> ((\<exists>e. api_upload_file app_config sample_environ
               (bearer_request [''file'' \<mapsto> hello_file]) empty_fs = (Raise (OSError e), empty_fs))
        \<or> (\<exists>link n sz dt st'. api_upload_file app_config sample_environ
               (bearer_request [''file'' \<mapsto> hello_file]) empty_fs
             = (Respond (SuccessJson link n sz dt, 200), st')))
   \<and> api_upload_file app_config sample_environ (bearer_request [''file'' \<mapsto> hello_file]) empty_fs
     = (Respond (SuccessJson ''http://localhost:8000/share/0123456789ab/hello.txt'' ''hello.txt''
                   0 ''2025-11-22T12:05:00'', 200),
        stored_fs ''/srv/app'' ''/srv/app/uploaded_files/0123456789ab-hello.txt'')"
proof -
  have 1: "files (bearer_request Map.empty) ''file'' = None"
    by (simp add: bearer_request_def)
  have 2: "files (bearer_request [''file'' \<mapsto> hello_file\<lparr>filename := []\<rparr>]) ''file''
             = Some (hello_file\<lparr>filename := []\<rparr>)
           \<and> filename (hello_file\<lparr>filename := []\<rparr>) = []"
    by (simp add: bearer_request_def)
  have 3: "files (bearer_request [''file'' \<mapsto> hello_file]) ''file'' = Some hello_file
           \<and> filename hello_file \<noteq> []"
    by (simp add: bearer_request_def hello_file_def ustr_def)
  note a = upload_validation_failures
            [OF bearer_request_authenticated, of Map.empty sample_environ empty_fs,
             THEN conjunct1, rule_format, OF 1]
  note b = upload_validation_failures
            [OF bearer_request_authenticated, of "[''file'' \<mapsto> hello_file\<lparr>filename := []\<rparr>]"
               sample_environ empty_fs, THEN conjunct2, THEN conjunct1, rule_format, OF 2]
  note c = upload_validation_failures
            [OF bearer_request_authenticated, of "[''file'' \<mapsto> hello_file]"
               sample_environ empty_fs, THEN conjunct2, THEN conjunct2, rule_format, OF 3]
  show ?thesis using a b c hello_upload by (intro conjI)
qed

text \<open>
  \<^bold>\<open>C5\<close> (no escape from the storage directory). The sanitized name never contains a
  slash, whatever the client sent. Whatever the upload handler returns, the storage is
  either unchanged or changed at one path: \<open>UPLOAD_FOLDER\<close>, a slash (unless the folder
  ends with one), and a name \<open>k\<close> that has no slash and is none of the empty string,
  \<open>.\<close> and \<open>..\<close>, that is, an entry of the storage directory itself.
\<close>

theorem sanitized_name_stays_inside:
  "CHR ''/'' \<notin> set (secure_filename tbl name)
   \<and> (\<forall>out st'. api_upload_file cfg env req st = (out, st') \<longrightarrow>
         st' = st
         \<or> (\<exists>k data. CHR ''/'' \<notin> set k \<and> k \<noteq> [] \<and> k \<noteq> ''.'' \<and> k \<noteq> ''..''
               \<and> st' = st\<lparr>contents := (contents st)
                     (resolve st
                        (if UPLOAD_FOLDER cfg = [] \<or> last (UPLOAD_FOLDER cfg) = CHR ''/''
                         then UPLOAD_FOLDER cfg @ k else UPLOAD_FOLDER cfg @ ''/'' @ k)
                      \<mapsto> data)\<rparr>))"
proof (intro conjI allI impI)
  show "CHR ''/'' \<notin> set (secure_filename tbl name)" by (rule secure_filename_no_slash)
next
  fix out st'
  assume "api_upload_file cfg env req st = (out, st')"
  from api_upload_file_state [OF this]
  show "st' = st
         \<or> (\<exists>k data. CHR ''/'' \<notin> set k \<and> k \<noteq> [] \<and> k \<noteq> ''.'' \<and> k \<noteq> ''..''
               \<and> st' = st\<lparr>contents := (contents st)
                     (resolve st
                        (if UPLOAD_FOLDER cfg = [] \<or> last (UPLOAD_FOLDER cfg) = CHR ''/''
                         then UPLOAD_FOLDER cfg @ k else UPLOAD_FOLDER cfg @ ''/'' @ k)
                      \<mapsto> data)\<rparr>)"
  proof
    assume "st' = st" then show ?thesis by simp
  next
    assume "\<exists>f. files req ''file'' = Some f
           \<and> st' = st\<lparr>contents := (contents st)
                 (resolve st (os_path_join (UPLOAD_FOLDER cfg)
                    (take 12 (hex (uuid4 (urandom env))) @ ''-''
                       @ secure_filename (unicode_fold env) (filename f))) \<mapsto> stream f)\<rparr>"
    then obtain f where "files req ''file'' = Some f" and st': "st' = st\<lparr>contents := (contents st)
                 (resolve st (os_path_join (UPLOAD_FOLDER cfg)
                    (take 12 (hex (uuid4 (urandom env))) @ ''-''
                       @ secure_filename (unicode_fold env) (filename f))) \<mapsto> stream f)\<rparr>"
      by blast
    define k where "k = take 12 (hex (uuid4 (urandom env))) @ ''-''
                       @ secure_filename (unicode_fold env) (filename f)"
    have 1: "CHR ''/'' \<notin> set k"
      unfolding k_def using unique_id_no_slash secure_filename_no_slash by simp
    have m: "CHR ''-'' \<in> set k" unfolding k_def by simp
    have 2: "k \<noteq> []" using m by auto
    have 3: "k \<noteq> ''.''" using m by auto
    have 4: "k \<noteq> ''..''" using m by auto
    have "st' = st\<lparr>contents := (contents st)
                     (resolve st
                        (if UPLOAD_FOLDER cfg = [] \<or> last (UPLOAD_FOLDER cfg) = CHR ''/''
                         then UPLOAD_FOLDER cfg @ k else UPLOAD_FOLDER cfg @ ''/'' @ k)
                      \<mapsto> stream f)\<rparr>"
      using st' unfolding k_def [symmetric] os_path_join_relative [OF 1] .
    then show ?thesis using 1 2 3 4 by (intro disjI2 exI [of _ k] exI [of _ "stream f"]) simp
  qed
qed

theorem sanitized_name_stays_inside_witness:
  "CHR ''/'' \<notin> set (secure_filename (unicode_fold sample_environ) (ustr ''../../etc/passwd''))
   \<and> (\<exists>k data. CHR ''/'' \<notin> set k \<and> k \<noteq> [] \<and> k \<noteq> ''.'' \<and> k \<noteq> ''..''
         \<and> snd (api_upload_file app_config sample_environ
                  (bearer_request
                     [''file'' \<mapsto> hello_file\<lparr>filename := ustr ''../../etc/passwd''\<rparr>]) empty_fs)
            = empty_fs\<lparr>contents :=
                 (contents empty_fs)(''/srv/app/uploaded_files/'' @ k \<mapsto> data)\<rparr>)"
proof -
  note t = sanitized_name_stays_inside [of "unicode_fold sample_environ"
      "ustr ''../../etc/passwd''" app_config sample_environ
      "bearer_request [''file'' \<mapsto> hello_file\<lparr>filename := ustr ''../../etc/passwd''\<rparr>]"
      empty_fs]
  have ne: "stored_fs ''/srv/app'' ''/srv/app/uploaded_files/0123456789ab-etc_passwd'' \<noteq> empty_fs"
    by (simp add: empty_fs_def stored_fs_def)
  have u: "resolve empty_fs
             (if UPLOAD_FOLDER app_config = [] \<or> last (UPLOAD_FOLDER app_config) = CHR ''/''
              then UPLOAD_FOLDER app_config @ k else UPLOAD_FOLDER app_config @ ''/'' @ k)
           = ''/srv/app/uploaded_files/'' @ k" for k
    by (simp add: app_config_def resolve_def os_path_join_def empty_fs_def)
  from t [THEN conjunct2, rule_format, OF passwd_upload] ne
  have "\<exists>k data. CHR ''/'' \<notin> set k \<and> k \<noteq> [] \<and> k \<noteq> ''.'' \<and> k \<noteq> ''..''
         \<and> stored_fs ''/srv/app'' ''/srv/app/uploaded_files/0123456789ab-etc_passwd''
            = empty_fs\<lparr>contents :=
                 (contents empty_fs)(''/srv/app/uploaded_files/'' @ k \<mapsto> data)\<rparr>"
    unfolding u by blast
  then show ?thesis
    using t [THEN conjunct1] unfolding passwd_upload snd_conv by (rule conjI [rotated])
qed



text \<open>
  \<^bold>\<open>C7\<close> (one key for both operations). A successful upload changes the storage at
  one path only, the path \<open>os.path.join(UPLOAD_FOLDER, unique_id-n)\<close> that \<open>file.save\<close> is
  given, where \<open>n\<close> is the sanitized name of the response, and puts the uploaded stream
  there. For segments free of slashes, as the route delivers them, \<open>serve_shared_file\<close>
  opens the path \<open>os.path.join(UPLOAD_FOLDER, file_id-filename)\<close> below the directory of
  the module and nothing else: its answer is the response made for the content read
  there, or the 404 page. The key is \<open>id\<close>, a dash and the name in both; the upload
  resolves the folder against the working directory, the retrieval against the
  directory of the module.
\<close>

theorem one_storage_key:
  "(\<forall>link n sz dt code st'.
       api_upload_file cfg env req st = (Respond (SuccessJson link n sz dt, code), st') \<longrightarrow>
       (\<exists>f. files req ''file'' = Some f \<and> n = secure_filename (unicode_fold env) (filename f)
          \<and> st' = st\<lparr>contents := (contents st)
                  (resolve st (os_path_join (UPLOAD_FOLDER cfg)
                     (take 12 (hex (uuid4 (urandom env))) @ ''-'' @ n)) \<mapsto> stream f)\<rparr>))
   \<and> (CHR ''/'' \<notin> set file_id \<and> CHR ''/'' \<notin> set name \<and> UPLOAD_FOLDER cfg \<noteq> [] \<longrightarrow>
        serve_shared_file cfg app greq file_id name st1 =
          (case read_file st1 (os_path_join (root_path app)
                  (os_path_join (UPLOAD_FOLDER cfg) (file_id @ ''-'' @ name))) of
             Inl e \<Rightarrow> (Html (not_found_page file_id name), 404)
           | Inr data \<Rightarrow>
               (case conditional_response app greq
                       (os_path_join (root_path app)
                          (os_path_join (UPLOAD_FOLDER cfg) (file_id @ ''-'' @ name))) data of
                  Inl e \<Rightarrow> (Html (not_found_page file_id name), 404)
                | Inr r \<Rightarrow> r)))"
proof (intro conjI allI impI)
  fix link n sz dt code st'
  assume "api_upload_file cfg env req st = (Respond (SuccessJson link n sz dt, code), st')"
  from api_upload_file_success_D [OF this]
  show "\<exists>f. files req ''file'' = Some f \<and> n = secure_filename (unicode_fold env) (filename f)
          \<and> st' = st\<lparr>contents := (contents st)
                  (resolve st (os_path_join (UPLOAD_FOLDER cfg)
                     (take 12 (hex (uuid4 (urandom env))) @ ''-'' @ n)) \<mapsto> stream f)\<rparr>"
    by blast
next
  assume a: "CHR ''/'' \<notin> set file_id \<and> CHR ''/'' \<notin> set name \<and> UPLOAD_FOLDER cfg \<noteq> []"
  show "serve_shared_file cfg app greq file_id name st1 =
          (case read_file st1 (os_path_join (root_path app)
                  (os_path_join (UPLOAD_FOLDER cfg) (file_id @ ''-'' @ name))) of
             Inl e \<Rightarrow> (Html (not_found_page file_id name), 404)
           | Inr data \<Rightarrow>
               (case conditional_response app greq
                       (os_path_join (root_path app)
                          (os_path_join (UPLOAD_FOLDER cfg) (file_id @ ''-'' @ name))) data of
                  Inl e \<Rightarrow> (Html (not_found_page file_id name), 404)
                | Inr r \<Rightarrow> r))"
    using a by (intro serve_shared_file_segments) simp_all
qed

theorem one_storage_key_witness:
  "contents (snd (api_upload_file app_config sample_environ
                    (bearer_request [''file'' \<mapsto> hello_file]) empty_fs))
     = (contents empty_fs)(''/srv/app/uploaded_files/0123456789ab-hello.txt'' \<mapsto> [104, 105])
   \<and> serve_shared_file app_config sample_app plain_get ''0123456789ab'' ''hello.txt''
        (stored_fs ''/srv/app'' ''/srv/app/uploaded_files/0123456789ab-hello.txt'')
       = (FileBody [104, 105], 200)
   \<and> serve_shared_file app_config sample_app (plain_get\<lparr>http_range := Some ''bytes=0-0''\<rparr>)
        ''0123456789ab'' ''hello.txt''
        (stored_fs ''/srv/app'' ''/srv/app/uploaded_files/0123456789ab-hello.txt'')
       = (FileBody [104], 206)"
proof -
  note t = one_storage_key [of app_config sample_environ
          "bearer_request [''file'' \<mapsto> hello_file]" empty_fs
          "''0123456789ab''" "''hello.txt''" sample_app _
          "stored_fs ''/srv/app'' ''/srv/app/uploaded_files/0123456789ab-hello.txt''"]
  from t [THEN conjunct1, rule_format, OF hello_upload] obtain f where
    "files (bearer_request [''file'' \<mapsto> hello_file]) ''file'' = Some f"
    and st': "stored_fs ''/srv/app'' ''/srv/app/uploaded_files/0123456789ab-hello.txt''
       = empty_fs\<lparr>contents := (contents empty_fs)
            (resolve empty_fs (os_path_join (UPLOAD_FOLDER app_config)
               (take 12 (hex (uuid4 (urandom sample_environ))) @ ''-'' @ ''hello.txt''))
             \<mapsto> stream f)\<rparr>"
    by blast
  then have f: "f = hello_file" by (simp add: hello_request_file)
  have 1: "contents (snd (api_upload_file app_config sample_environ
                    (bearer_request [''file'' \<mapsto> hello_file]) empty_fs))
     = (contents empty_fs)(''/srv/app/uploaded_files/0123456789ab-hello.txt'' \<mapsto> [104, 105])"
    unfolding hello_upload snd_conv st' f sample_environ_unique_id hello_path
    by (simp add: hello_file_def)
  have r: "read_file (stored_fs ''/srv/app'' ''/srv/app/uploaded_files/0123456789ab-hello.txt'')
             (os_path_join (root_path sample_app)
                (os_path_join (UPLOAD_FOLDER app_config) (''0123456789ab'' @ ''-'' @ ''hello.txt'')))
           = Inr [104, 105]"
    unfolding read_file_def hello_read_path by (simp add: stored_fs_def)
  have 2: "serve_shared_file app_config sample_app plain_get ''0123456789ab'' ''hello.txt''
        (stored_fs ''/srv/app'' ''/srv/app/uploaded_files/0123456789ab-hello.txt'')
       = (FileBody [104, 105], 200)"
    unfolding t [of plain_get, THEN conjunct2, THEN mp, OF hello_segments] r
    by (simp add: conditional_response_plain [OF plain_plain_get])
  have 3: "serve_shared_file app_config sample_app (plain_get\<lparr>http_range := Some ''bytes=0-0''\<rparr>)
        ''0123456789ab'' ''hello.txt''
        (stored_fs ''/srv/app'' ''/srv/app/uploaded_files/0123456789ab-hello.txt'')
       = (FileBody [104], 206)"
    unfolding t [of "plain_get\<lparr>http_range := Some ''bytes=0-0''\<rparr>", THEN conjunct2, THEN mp,
                 OF hello_segments] r
    by (simp add: conditional_response_def make_conditional_def plain_def plain_get_def
          sample_app_def)
  show ?thesis using 1 2 3 by (intro conjI)
qed

text \<open>
  \<^bold>\<open>C8\<close> (an error response writes nothing). Whenever the upload handler answers
  with an error body, the storage it returns is the storage it was given. The token
  check comes first: when it fails, every request with the same \<open>Authorization\<close> header
  gets that same response on unchanged storage, whatever its files.
\<close>

theorem error_response_writes_nothing:
  "(\<forall>c m code st'. api_upload_file cfg env req st = (Respond (ErrorJson c m, code), st')
       \<longrightarrow> st' = st)
   \<and> (\<forall>r. authenticate cfg (authorization req) = Some r \<longrightarrow>
         (\<forall>env1 (req1::request) st1. authorization req1 = authorization req \<longrightarrow>
            api_upload_file cfg env1 req1 st1 = (Respond r, st1)))"
proof (intro conjI allI impI)
  fix c m code st'
  assume "api_upload_file cfg env req st = (Respond (ErrorJson c m, code), st')"
  then show "st' = st" using api_upload_file_error_D by blast
next
  fix r env1 and req1 :: request and st1
  assume "authenticate cfg (authorization req) = Some r" "authorization req1 = authorization req"
  then show "api_upload_file cfg env1 req1 st1 = (Respond r, st1)"
    by (simp add: api_upload_file_def)
qed

theorem error_response_writes_nothing_witness:
  "api_upload_file app_config sample_environ
     \<lparr>authorization = None, files = [''file'' \<mapsto> hello_file], url_root = ''http://localhost:8000/''\<rparr>
     empty_fs
   = (Respond (ErrorJson 401 ''Authentication required. Missing Authorization header.'', 401),
      empty_fs)"
proof -
  have a: "authenticate app_config (authorization
      \<lparr>authorization = None, files = [''file'' \<mapsto> hello_file], url_root = ''http://localhost:8000/''\<rparr>)
     = Some (ErrorJson 401 ''Authentication required. Missing Authorization header.'', 401)"
    by (simp add: authenticate_def)
  show ?thesis
    using error_response_writes_nothing [of app_config sample_environ
      "\<lparr>authorization = None, files = [''file'' \<mapsto> hello_file],
        url_root = ''http://localhost:8000/''\<rparr>" empty_fs] a
    by simp
qed

text \<open>
  \<^bold>\<open>C9\<close> (the identifier). The first 12 characters of \<open>uuid4().hex\<close> are 12
  characters out of \<open>0123456789abcdef\<close>, whatever the random bytes; and the identifier
  in the share link and in the storage path of a successful upload is such a string.
\<close>

theorem unique_id_twelve_hex:
  "length (take 12 (hex (uuid4 r))) = 12
   \<and> set (take 12 (hex (uuid4 r))) \<subseteq> set ''0123456789abcdef''
   \<and> (\<forall>link n sz dt code st'.
         api_upload_file cfg env req st = (Respond (SuccessJson link n sz dt, code), st')
         \<longrightarrow> (\<exists>f unique_id. length unique_id = 12 \<and> set unique_id \<subseteq> set ''0123456789abcdef''
                \<and> link = url_root req @ ''share/'' @ unique_id @ ''/'' @ n
                \<and> files req ''file'' = Some f
                \<and> contents st' (resolve st (os_path_join (UPLOAD_FOLDER cfg) (unique_id @ ''-'' @ n)))
                     = Some (stream f)))"
proof (intro conjI allI impI)
  show "length (take 12 (hex (uuid4 r))) = 12" using unique_id_form by blast
  show "set (take 12 (hex (uuid4 r))) \<subseteq> set ''0123456789abcdef''" using unique_id_form by blast
next
  fix link n sz dt code st'
  assume "api_upload_file cfg env req st = (Respond (SuccessJson link n sz dt, code), st')"
  from api_upload_file_success_D [OF this] obtain f where
    "files req ''file'' = Some f"
    "link = url_root req @ ''share/'' @ take 12 (hex (uuid4 (urandom env))) @ ''/'' @ n"
    "st' = st\<lparr>contents := (contents st)
                   (resolve st (os_path_join (UPLOAD_FOLDER cfg)
                      (take 12 (hex (uuid4 (urandom env))) @ ''-'' @ n)) \<mapsto> stream f)\<rparr>"
    by blast
  then show "\<exists>f unique_id. length unique_id = 12 \<and> set unique_id \<subseteq> set ''0123456789abcdef''
                \<and> link = url_root req @ ''share/'' @ unique_id @ ''/'' @ n
                \<and> files req ''file'' = Some f
                \<and> contents st' (resolve st (os_path_join (UPLOAD_FOLDER cfg) (unique_id @ ''-'' @ n)))
                     = Some (stream f)"
    using unique_id_form [of "uuid4 (urandom env)"]
    by (intro exI [of _ f] exI [of _ "take 12 (hex (uuid4 (urandom env)))"]) simp
qed

theorem unique_id_twelve_hex_witness:
  "\<exists>unique_id. length unique_id = 12 \<and> set unique_id \<subseteq> set ''0123456789abcdef''
     \<and> ''http://localhost:8000/share/0123456789ab/hello.txt''
         = ''http://localhost:8000/'' @ ''share/'' @ unique_id @ ''/'' @ ''hello.txt''"
  using unique_id_twelve_hex [of 0 app_config sample_environ
          "bearer_request [''file'' \<mapsto> hello_file]" empty_fs] hello_upload
  by (auto simp: bearer_request_def)

text \<open>
  \<^bold>\<open>C10\<close>, as amended (a name that sanitizes to nothing). For an authenticated
  upload whose filename is not empty while its sanitized form is, \<^emph>\<open>and whose write to
  the storage does not raise\<close>: the answer is 200 with \<open>fileName\<close> the empty string and a
  share link that ends with the identifier and a slash, and the stream is stored under
  \<open>UPLOAD_FOLDER/unique_id-\<close>. The filename \<open>../..\<close> is such a name. Without the
  condition the claim fails: the handler does not catch what \<open>file.save\<close> raises, as
  the evaluation after the witness shows.
\<close>

theorem empty_sanitized_name_is_stored:
  assumes "authenticate cfg (authorization req) = None"
    and "files req ''file'' = Some f" and "filename f \<noteq> []"
    and "secure_filename (unicode_fold env) (filename f) = []"
    and "fault st (resolve st (os_path_join (UPLOAD_FOLDER cfg)
                     (take 12 (hex (uuid4 (urandom env))) @ ''-''))) = None"
  shows "api_upload_file cfg env req st =
           (Respond (SuccessJson (url_root req @ ''share/''
                                    @ take 12 (hex (uuid4 (urandom env))) @ ''/'')
                       [] (content_length f) (now_isoformat env), 200),
            st\<lparr>contents := (contents st)
                  (resolve st (os_path_join (UPLOAD_FOLDER cfg)
                     (take 12 (hex (uuid4 (urandom env))) @ ''-'')) \<mapsto> stream f)\<rparr>)"
proof -
  have "api_upload_file cfg env req st = store_upload cfg env req st"
    using assms(1) by (simp add: api_upload_file_def)
  then show ?thesis
    unfolding store_upload_named [OF assms(2,3)] Let_def assms(4)
    using assms(5) by simp
qed

theorem empty_sanitized_name_is_stored_witness:
  "ustr ''../..'' \<noteq> []
   \<and> secure_filename (unicode_fold sample_environ) (ustr ''../..'') = []
   \<and> api_upload_file app_config sample_environ
        (bearer_request [''file'' \<mapsto> hello_file\<lparr>filename := ustr ''../..''\<rparr>]) empty_fs
     = (Respond (SuccessJson ''http://localhost:8000/share/0123456789ab/'' []
                   0 ''2025-11-22T12:05:00'', 200),
        stored_fs ''/srv/app'' ''/srv/app/uploaded_files/0123456789ab-'')"
proof -
  have 1: "files (bearer_request [''file'' \<mapsto> hello_file\<lparr>filename := ustr ''../..''\<rparr>]) ''file''
             = Some (hello_file\<lparr>filename := ustr ''../..''\<rparr>)"
    by (simp add: bearer_request_def)
  have 2: "filename (hello_file\<lparr>filename := ustr ''../..''\<rparr>) \<noteq> []"
    by (simp add: ustr_def)
  have 3: "secure_filename (unicode_fold sample_environ)
             (filename (hello_file\<lparr>filename := ustr ''../..''\<rparr>)) = []"
    using sample_environ_dots by simp
  have p: "resolve empty_fs (os_path_join (UPLOAD_FOLDER app_config) (''0123456789ab'' @ ''-''))
             = ''/srv/app/uploaded_files/0123456789ab-''"
    by (simp add: resolve_def os_path_join_def app_config_def empty_fs_def)
  have 4: "fault empty_fs (resolve empty_fs (os_path_join (UPLOAD_FOLDER app_config)
             (take 12 (hex (uuid4 (urandom sample_environ))) @ ''-''))) = None"
    by (simp add: empty_fs_def)
  have "api_upload_file app_config sample_environ
        (bearer_request [''file'' \<mapsto> hello_file\<lparr>filename := ustr ''../..''\<rparr>]) empty_fs
     = (Respond (SuccessJson ''http://localhost:8000/share/0123456789ab/'' []
                   0 ''2025-11-22T12:05:00'', 200),
        stored_fs ''/srv/app'' ''/srv/app/uploaded_files/0123456789ab-'')"
    unfolding empty_sanitized_name_is_stored [OF bearer_request_authenticated 1 2 3 4]
      sample_environ_unique_id p
    by (simp add: bearer_request_def hello_file_def sample_environ_def empty_fs_def stored_fs_def)
  then show ?thesis using 2 sample_environ_dots by simp
qed

text \<open>
  The same request on a storage directory where the path of the new file cannot be
  opened: the exception of \<open>file.save\<close> leaves the handler, and there is no 200.
\<close>

theorem empty_sanitized_name_write_fails_counterexample:
  "ustr ''../..'' \<noteq> []
   \<and> secure_filename (unicode_fold sample_environ) (ustr ''../..'') = []
   \<and> authenticate app_config (authorization
        (bearer_request [''file'' \<mapsto> hello_file\<lparr>filename := ustr ''../..''\<rparr>])) = None
   \<and> api_upload_file app_config sample_environ
        (bearer_request [''file'' \<mapsto> hello_file\<lparr>filename := ustr ''../..''\<rparr>])
        (empty_fs\<lparr>fault := [''/srv/app/uploaded_files/0123456789ab-'' \<mapsto> PermissionError]\<rparr>)
     = (Raise (OSError PermissionError),
        empty_fs\<lparr>fault := [''/srv/app/uploaded_files/0123456789ab-'' \<mapsto> PermissionError]\<rparr>)"
proof -
  have 1: "files (bearer_request [''file'' \<mapsto> hello_file\<lparr>filename := ustr ''../..''\<rparr>]) ''file''
             = Some (hello_file\<lparr>filename := ustr ''../..''\<rparr>)"
    by (simp add: bearer_request_def)
  have 2: "filename (hello_file\<lparr>filename := ustr ''../..''\<rparr>) \<noteq> []"
    by (simp add: ustr_def)
  have 3: "secure_filename (unicode_fold sample_environ)
             (filename (hello_file\<lparr>filename := ustr ''../..''\<rparr>)) = []"
    using sample_environ_dots by simp
  have "api_upload_file app_config sample_environ
        (bearer_request [''file'' \<mapsto> hello_file\<lparr>filename := ustr ''../..''\<rparr>])
        (empty_fs\<lparr>fault := [''/srv/app/uploaded_files/0123456789ab-'' \<mapsto> PermissionError]\<rparr>)
     = (Raise (OSError PermissionError),
        empty_fs\<lparr>fault := [''/srv/app/uploaded_files/0123456789ab-'' \<mapsto> PermissionError]\<rparr>)"
    unfolding api_upload_file_def bearer_request_authenticated option.case
      store_upload_named [OF 1 2] Let_def sample_environ_unique_id 3
    by (simp add: empty_fs_def resolve_def app_config_def os_path_join_def)
  then show ?thesis using 2 sample_environ_dots bearer_request_authenticated by simp
qed

end
